theory Spec2Isabelle
  imports Complex_Main "HOL-Library.Product_Lexorder" "HOL-Library.List_Lexorder"
    "HOL-Library.Char_ord" "HOL-Library.AList"
begin

unbundle bit_operations_syntax

section \<open>dysgu call\_component: data model\<close>

text \<open>
  The development follows \<^verbatim>\<open>dysgu/call_component.pyx\<close>. Python and C integers are
  modelled as unbounded \<open>int\<close> (coordinates and counts stay far below the C \<open>int\<close> range),
  Python/C floating point values as exact rationals, exceptions as the left summand of a
  sum type, and Python dictionaries as association lists in insertion order.
\<close>

datatype error = KeyError string | IndexError | ZeroDivisionError | TypeError | ValueError

text \<open>The \<^verbatim>\<open>cdef class AlignmentItem\<close>: every field is a C \<open>int\<close> or a \<open>str\<close>.\<close>

record AlignmentItem =
  chrA :: int
  chrB :: int
  priA :: int
  priB :: int
  rA :: int
  rB :: int
  posA :: int
  endA :: int
  posB :: int
  endB :: int
  strandA :: int
  strandB :: int
  left_clipA :: int
  right_clipA :: int
  left_clipB :: int
  right_clipB :: int
  breakA_precise :: int
  breakB_precise :: int
  breakA :: int
  breakB :: int
  a_qstart :: int
  a_qend :: int
  b_qstart :: int
  b_qend :: int
  query_gap :: int
  read_overlaps_mate :: int
  svtype :: string
  join_type :: string

text \<open>\<^verbatim>\<open>AlignmentItem.__cinit__\<close>: the outputs start at their "undetermined" values.\<close>

definition new_AlignmentItem ::
  "int \<Rightarrow> int \<Rightarrow> int \<Rightarrow> int \<Rightarrow> int \<Rightarrow> int \<Rightarrow> int \<Rightarrow> int \<Rightarrow> int \<Rightarrow> int \<Rightarrow> int \<Rightarrow> int \<Rightarrow>
   int \<Rightarrow> int \<Rightarrow> int \<Rightarrow> int \<Rightarrow> int \<Rightarrow> int \<Rightarrow> int \<Rightarrow> int \<Rightarrow> int \<Rightarrow> AlignmentItem" where
  "new_AlignmentItem cA cB pA pB ra rb psA enA psB enB sA sB lcA rcA lcB rcB aqs aqe bqs bqe rom =
     \<lparr> chrA = cA, chrB = cB, priA = pA, priB = pB, rA = ra, rB = rb,
       posA = psA, endA = enA, posB = psB, endB = enB, strandA = sA, strandB = sB,
       left_clipA = lcA, right_clipA = rcA, left_clipB = lcB, right_clipB = rcB,
       breakA_precise = 0, breakB_precise = 0, breakA = - 1, breakB = - 1,
       a_qstart = aqs, a_qend = aqe, b_qstart = bqs, b_qend = bqe,
       query_gap = - 1, read_overlaps_mate = rom, svtype = [], join_type = [] \<rparr>"

text \<open>
  Modelled from the spec: \<^verbatim>\<open>is_overlapping\<close> is imported from
  \<^verbatim>\<open>dysgu.map_set_utils\<close>, which is not part of the sources at hand. The spec only
  calls it "positional overlap"; the definition below is the one the source file keeps as
  a comment next to \<^verbatim>\<open>classify_d\<close>: \<^verbatim>\<open>int(max(x1, y1) <= min(x2, y2))\<close>.
\<close>

definition is_overlapping :: "int \<Rightarrow> int \<Rightarrow> int \<Rightarrow> int \<Rightarrow> bool" where
  "is_overlapping x1 x2 y1 y2 \<longleftrightarrow> max x1 y1 \<le> min x2 y2"

subsection \<open>Decimal rendering of integers (Python \<^verbatim>\<open>str(int)\<close>, used by f-strings)\<close>

fun str_nat :: "nat \<Rightarrow> string" where
  "str_nat n = (if n < 10 then [char_of (48 + n)] else str_nat (n div 10) @ [char_of (48 + n mod 10)])"

definition str_int :: "int \<Rightarrow> string" where
  "str_int i = (if i < 0 then CHR ''-'' # str_nat (nat (- i)) else str_nat (nat i))"

section \<open>Alignment-pair classifier\<close>

text \<open>
  Almost every branch of the classifier is the same block of assignments:
  \<^verbatim>\<open>v.breakA = a; if ca: v.breakA_precise = 1; v.breakB = b; if cb: v.breakB_precise = 1;
  v.svtype = sv; v.join_type = jt\<close>. \<open>set_breaks\<close> is that block; a branch that sets a
  precision flag unconditionally passes \<open>1\<close> for the condition, a branch that leaves it
  alone passes \<open>0\<close>.
\<close>

definition set_breaks ::
  "AlignmentItem \<Rightarrow> int \<Rightarrow> int \<Rightarrow> int \<Rightarrow> int \<Rightarrow> string \<Rightarrow> string \<Rightarrow> AlignmentItem" where
  "set_breaks v a ca b cb sv jt =
     v\<lparr> breakA := a,
        breakA_precise := (if ca \<noteq> 0 then 1 else breakA_precise v),
        breakB := b,
        breakB_precise := (if cb \<noteq> 0 then 1 else breakB_precise v),
        svtype := sv, join_type := jt \<rparr>"

text \<open>
  The "nested DUP" blocks choose each break by an \<^verbatim>\<open>if left_clip / elif right_clip / else\<close>
  chain; \<open>nested_breaks\<close> is that pair of chains, without the type assignment.
\<close>

definition nested_breaks :: "AlignmentItem \<Rightarrow> AlignmentItem" where
  "nested_breaks v =
     (let v = (if left_clipA v \<noteq> 0 then v\<lparr>breakA := posA v, breakA_precise := 1\<rparr>
               else if right_clipA v \<noteq> 0 then v\<lparr>breakA := endA v, breakA_precise := 1\<rparr>
               else v\<lparr>breakA := endA v\<rparr>)
      in (if left_clipB v \<noteq> 0 then v\<lparr>breakB := posB v, breakB_precise := 1\<rparr>
          else if right_clipB v \<noteq> 0 then v\<lparr>breakB := endB v, breakB_precise := 1\<rparr>
          else v\<lparr>breakB := endB v\<rparr>))"

definition two_primary :: "AlignmentItem \<Rightarrow> AlignmentItem" where
  "two_primary v =
    (if posA v < posB v \<or> (posA v = posB v \<and> endA v < endB v) then
       (if strandA v = 3 \<and> strandB v = 5 then
          set_breaks v (endA v) (right_clipA v) (posB v) (left_clipB v) ''DEL'' ''3to5''
        else if strandA v = 5 \<and> strandB v = 3 then
          set_breaks v (posA v) (left_clipA v) (endB v) (right_clipB v) ''DUP'' ''5to3''
        else if strandA v = 5 then
          (if \<not> (left_clipA v \<noteq> 0 \<or> left_clipB v \<noteq> 0) \<and> (right_clipA v \<noteq> 0 \<or> right_clipB v \<noteq> 0) then
             set_breaks v (endA v) (right_clipA v) (endB v) (right_clipB v) ''INV'' ''3to3''
           else
             set_breaks v (posA v) (left_clipA v) (posB v) (right_clipB v) ''INV'' ''5to5'')
        else
          (if \<not> (right_clipA v \<noteq> 0 \<or> right_clipB v \<noteq> 0) \<and> (left_clipA v \<noteq> 0 \<or> left_clipB v \<noteq> 0) then
             (if (posA v < posB v \<and> left_clipB v \<noteq> 0) \<or> (posB v < posA v \<and> left_clipA v \<noteq> 0) then
                set_breaks v (endA v) (right_clipA v) (endB v) (right_clipB v) ''INV'' ''3to3''
              else
                set_breaks v (posA v) (left_clipA v) (posB v) (left_clipB v) ''INV'' ''5to5'')
           else
             set_breaks v (endA v) (left_clipA v) (endB v) (right_clipB v) ''INV'' ''3to3''))
     else
       (if strandA v = 5 \<and> strandB v = 3 then
          set_breaks v (posA v) (left_clipA v) (endB v) (right_clipB v) ''DEL'' ''3to5''
        else if strandB v = 5 \<and> strandA v = 3 then
          set_breaks v (endA v) (right_clipA v) (posB v) (left_clipB v) ''DUP'' ''5to3''
        else if strandA v = 5 then
          (if \<not> (left_clipA v \<noteq> 0 \<or> left_clipB v \<noteq> 0) \<and> (right_clipA v \<noteq> 0 \<or> right_clipB v \<noteq> 0) then
             set_breaks v (endA v) (right_clipA v) (endB v) (right_clipB v) ''INV'' ''3to3''
           else
             set_breaks v (posA v) (left_clipA v) (posB v) (right_clipB v) ''INV'' ''5to5'')
        else if strandA v = 3 then
          (if \<not> (right_clipA v \<noteq> 0 \<or> right_clipB v \<noteq> 0) \<and> (left_clipA v \<noteq> 0 \<or> left_clipB v \<noteq> 0) then
             set_breaks v (posA v) (right_clipA v) (posB v) (right_clipB v) ''INV'' ''5to5''
           else
             set_breaks v (endA v) (left_clipA v) (endB v) (right_clipB v) ''INV'' ''3to3'')
        else v))"

text \<open>
  \<^verbatim>\<open>same_read\<close>: primary + supplementary of one physical read. The two branches that set
  the breaks before comparing the gaps leave the type to the comparison, so they pass the
  current \<open>svtype\<close> and \<open>join_type\<close> to \<open>set_breaks\<close>.
\<close>

definition same_read :: "AlignmentItem \<Rightarrow> AlignmentItem" where
  "same_read v =
    (if posA v < posB v \<or> (posA v = posB v \<and> endA v \<le> endB v) then
       (if strandA v = strandB v then
          (if is_overlapping (posA v) (endA v) (posB v) (endB v) then
             (let v = nested_breaks v;
                  query_gap' = b_qstart v - a_qend v;
                  ref_gap = breakB v - breakA v;
                  v = (if ref_gap < query_gap' then v\<lparr>svtype := ''INS'', query_gap := query_gap'\<rparr>
                       else v\<lparr>svtype := ''DUP''\<rparr>)
              in v\<lparr>join_type := ''5to3''\<rparr>)
           else if left_clipA v = 0 \<and> right_clipB v = 0 then
             (let v = set_breaks v (endA v) (right_clipA v) (posB v) (left_clipB v) (svtype v) (join_type v);
                  query_gap' = b_qstart v - a_qend v;
                  ref_gap = breakB v - breakA v
              in (if ref_gap < query_gap' then
                    v\<lparr>svtype := ''INS'', join_type := ''3to5'', query_gap := query_gap'\<rparr>
                  else if read_overlaps_mate v \<noteq> 0 then v\<lparr>svtype := ''DUP'', join_type := ''5to3''\<rparr>
                  else v\<lparr>svtype := ''DEL'', join_type := ''3to5''\<rparr>))
           else if right_clipA v = 0 \<and> left_clipB v = 0 then
             set_breaks v (posA v) (left_clipA v) (endB v) (right_clipB v) ''DUP'' ''5to3''
           else if left_clipA v = 0 \<and> left_clipB v = 0 then
             set_breaks v (endA v) (right_clipA v) (endB v) (right_clipB v) ''INV'' ''3to3''
           else
             set_breaks v (posA v) (left_clipA v) (posB v) (left_clipB v) ''INV'' ''5to5'')
        else if strandA v = 5 \<and> strandB v = 3 then
          (if left_clipA v = 0 \<and> left_clipB v = 0 then
             set_breaks v (endA v) (right_clipA v) (endB v) (right_clipB v) ''INV'' ''3to3''
           else if right_clipA v = 0 \<and> right_clipB v = 0 then
             set_breaks v (posA v) (left_clipA v) (posB v) (left_clipB v) ''INV'' ''5to5''
           else if is_overlapping (posA v) (endA v) (posB v) (endB v) then
             set_breaks v (posA v) (left_clipA v) (endB v) (right_clipB v) ''INV:DUP'' ''5to3''
           else if right_clipA v \<noteq> 0 \<and> left_clipB v \<noteq> 0 then
             set_breaks v (endA v) 0 (posB v) 0 ''INV'' ''3to5''
           else
             set_breaks v (posA v) 0 (endB v) 0 ''INV'' ''5to3'')
        else
          (if left_clipA v \<noteq> 0 \<and> left_clipB v \<noteq> 0 then
             set_breaks v (posA v) 1 (posB v) 1 ''INV'' ''5to5''
           else if right_clipA v \<noteq> 0 \<and> right_clipB v \<noteq> 0 then
             set_breaks v (endA v) 1 (endB v) 1 ''INV'' ''3to3''
           else
             set_breaks v (posA v) 0 (posB v) 0 ''INV''
               (if strandA v = 5 then ''5to5'' else ''3to3'')))
     else
       (if strandA v = strandB v then
          (if is_overlapping (posA v) (endA v) (posB v) (endB v) then
             (let v = nested_breaks v;
                  query_gap' = b_qend v - a_qstart v;
                  ref_gap = breakB v - breakA v;
                  v = (if ref_gap < query_gap' then v\<lparr>svtype := ''INS'', query_gap := query_gap'\<rparr>
                       else v\<lparr>svtype := ''DUP''\<rparr>)
              in v\<lparr>join_type := ''5to3''\<rparr>)
           else if left_clipB v = 0 \<and> right_clipA v = 0 then
             (let v = set_breaks v (posA v) 1 (endB v) 1 (svtype v) (join_type v);
                  query_gap' = b_qstart v - a_qend v;
                  ref_gap = breakA v - breakB v
              in (if ref_gap < query_gap' then
                    v\<lparr>svtype := ''INS'', join_type := ''3to5'', query_gap := query_gap'\<rparr>
                  else if read_overlaps_mate v \<noteq> 0 then v\<lparr>svtype := ''DUP'', join_type := ''5to3''\<rparr>
                  else v\<lparr>svtype := ''DEL'', join_type := ''3to5''\<rparr>))
           else if right_clipB v = 0 \<and> left_clipA v = 0 then
             set_breaks v (endA v) 1 (posB v) 1 ''DUP'' ''5to3''
           else
             set_breaks v (posA v) 0 (posB v) 0 ''BND''
               (str_int (strandA v) @ ''to'' @ str_int (strandB v)))
        else
          (if left_clipA v \<noteq> 0 \<and> left_clipB v \<noteq> 0 then
             set_breaks v (posA v) 1 (posB v) 1 ''INV'' ''5to5''
           else if right_clipA v \<noteq> 0 \<and> right_clipB v \<noteq> 0 then
             set_breaks v (endA v) 1 (endB v) 1 ''INV'' ''3to3''
           else
             set_breaks v (posA v) 0 (posB v) 0 ''INV''
               (if strandA v = 5 then ''5to5'' else ''3to3''))))"

definition different_read :: "AlignmentItem \<Rightarrow> AlignmentItem" where
  "different_read v =
    (if posA v < posB v \<or> (posA v = posB v \<and> endA v \<le> endB v) then
       (if strandA v = 3 \<and> strandB v = 5 then
          set_breaks v (endA v) (right_clipA v) (posB v) (left_clipB v) ''INS'' ''3to5''
        else if strandA v = 5 \<and> strandB v = 3 then
          set_breaks v (posA v) (left_clipA v) (endB v) (right_clipB v) ''DUP'' ''5to3''
        else if strandA v = strandB v then
          (if is_overlapping (posA v) (endA v) (posB v) (endB v) then
             (if strandA v = 3 then
                set_breaks v (endA v) (right_clipA v) (endB v) (right_clipB v) ''INV'' ''3to3''
              else
                set_breaks v (posA v) (left_clipA v) (posB v) (left_clipB v) ''INV'' ''5to5'')
           else if right_clipA v = 0 \<and> right_clipB v = 0 then
             set_breaks v (posA v) (left_clipA v) (posB v) (left_clipB v) ''INV'' ''5to5''
           else if left_clipA v = 0 \<and> left_clipB v = 0 then
             set_breaks v (endA v) (right_clipA v) (endB v) (right_clipB v) ''INV'' ''3to3''
           else if right_clipA v \<noteq> 0 \<and> left_clipB v \<noteq> 0 then
             set_breaks v (endA v) 1 (posB v) 1 ''INV:DUP'' ''5to3''
           else
             set_breaks v (posA v) 1 (endB v) 1 ''INV:DUP'' ''3to5'')
        else v)
     else
       (if strandA v = 5 \<and> strandB v = 3 then
          set_breaks v (posA v) (left_clipA v) (endB v) (right_clipB v) ''INS'' ''3to5''
        else if strandA v = 3 \<and> strandB v = 5 then
          set_breaks v (endA v) (right_clipA v) (posB v) (left_clipB v) ''DUP'' ''5to3''
        else if strandA v = strandB v then
          (if is_overlapping (posA v) (endA v) (posB v) (endB v) then
             (nested_breaks v)\<lparr>svtype := ''DUP'', join_type := ''5to3''\<rparr>
           else if right_clipA v \<noteq> 0 \<and> left_clipB v \<noteq> 0 then
             set_breaks v (endA v) 1 (posB v) 1 ''DEL'' ''3to5''
           else if left_clipA v \<noteq> 0 \<and> right_clipB v \<noteq> 0 then
             set_breaks v (posA v) 1 (endB v) 1 ''DUP'' ''5to3''
           else if left_clipB v = 0 \<and> left_clipA v = 0 then
             set_breaks v (endA v) (right_clipA v) (endB v) (right_clipB v) ''INV'' ''3to3''
           else if right_clipB v = 0 \<and> right_clipA v = 0 then
             set_breaks v (posA v) (left_clipA v) (posB v) (left_clipB v) ''INV'' ''5to5''
           else if strandA v = 3 then
             set_breaks v (endA v) (right_clipA v) (endB v) (right_clipB v) ''INV'' ''3to3''
           else
             set_breaks v (posA v) (left_clipA v) (posB v) (left_clipB v) ''INV'' ''5to5'')
        else v))"

definition translocation :: "AlignmentItem \<Rightarrow> AlignmentItem" where
  "translocation v =
     (let v = v\<lparr>svtype := ''TRA''\<rparr>;
          v = (if left_clipA v \<noteq> 0 then v\<lparr>breakA := posA v, breakA_precise := 1\<rparr>
               else if right_clipA v \<noteq> 0 then v\<lparr>breakA := endA v, breakA_precise := 1\<rparr>
               else v\<lparr>breakA := posA v, breakA_precise := 1\<rparr>);
          v = (if left_clipB v \<noteq> 0 then v\<lparr>breakB := posB v, breakB_precise := 1\<rparr>
               else if right_clipB v \<noteq> 0 then v\<lparr>breakB := endB v, breakB_precise := 1\<rparr>
               else v\<lparr>breakB := posB v, breakB_precise := 1\<rparr>)
      in v\<lparr>join_type := str_int (strandA v) @ ''to'' @ str_int (strandB v)\<rparr>)"

definition classify_d :: "AlignmentItem \<Rightarrow> AlignmentItem" where
  "classify_d v0 =
     (let v = v0\<lparr>breakA_precise := 0, breakB_precise := 0\<rparr>
      in if chrA v \<noteq> chrB v then translocation v
         else if priA v \<noteq> 0 \<and> priB v \<noteq> 0 then two_primary v
         else if rA v = rB v then same_read v
         else different_read v)"

section \<open>Breakpoint consensus\<close>

text \<open>
  The numpy functions the consensus step calls, over exact rationals (floating point
  rounding, and the narrowing of the medians to a C \<open>float\<close>, are not modelled).
  \<open>py_int\<close> is Python's \<^verbatim>\<open>int(x)\<close> of a float: truncation towards zero.
  \<open>np_percentile_975\<close> is \<^verbatim>\<open>np.percentile(xs, [97.5])\<close> with numpy's default linear
  interpolation between the two neighbouring order statistics.
\<close>

definition py_int :: "rat \<Rightarrow> int" where
  "py_int x = (if x < 0 then \<lceil>x\<rceil> else \<lfloor>x\<rfloor>)"

definition np_mean :: "int list \<Rightarrow> rat" where
  "np_mean xs = of_int (sum_list xs) / of_nat (length xs)"

definition np_median :: "int list \<Rightarrow> rat" where
  "np_median xs =
     (let s = sort xs; n = length s
      in if n mod 2 = 1 then of_int (s ! (n div 2))
         else (of_int (s ! (n div 2 - 1)) + of_int (s ! (n div 2))) / 2)"

definition np_percentile_975 :: "int list \<Rightarrow> rat" where
  "np_percentile_975 xs =
     (let s = sort xs; n = length s;
          h = of_nat (n - 1) * (975 / 1000);
          lo = nat \<lfloor>h\<rfloor>;
          hi = min (lo + 1) (n - 1)
      in of_int (s ! lo) + (h - of_nat lo) * (of_int (s ! hi) - of_int (s ! lo)))"

text \<open>
  The scan of \<^verbatim>\<open>break_ops\<close>: \<^verbatim>\<open>for idx, item in enumerate(ops)\<close> with the running
  \<^verbatim>\<open>cum_sum\<close>, \<^verbatim>\<open>max_sum\<close> and \<^verbatim>\<open>max_sum_i\<close>; the result is the final
  \<^verbatim>\<open>max_sum_i\<close>.
\<close>

fun scan_max :: "(int \<times> int \<times> int) list \<Rightarrow> nat \<Rightarrow> int \<Rightarrow> int \<Rightarrow> nat \<Rightarrow> nat" where
  "scan_max [] idx cum_sum max_sum max_sum_i = max_sum_i"
| "scan_max (item # ops) idx cum_sum max_sum max_sum_i =
     (let cum_sum = cum_sum + fst (snd item)
      in if cum_sum > max_sum then scan_max ops (idx + 1) cum_sum cum_sum idx
         else scan_max ops (idx + 1) cum_sum max_sum max_sum_i)"

text \<open>
  \<^verbatim>\<open>break_ops\<close>. Python sorts the \<open>(position, delta, precise)\<close> triples lexicographically;
  \<^verbatim>\<open>reverse=True\<close> gives the descending order (equal triples are indistinguishable, so
  the reversed ascending sort is the same list). With no event at all \<^verbatim>\<open>ops[max_sum_i]\<close>
  is an out-of-range read, and with no position the percentile is \<open>nan\<close>, whose
  conversion to \<open>int\<close> raises; both are error results here. The result is
  \<open>(break_point, cipos95, is_precise)\<close>.
\<close>

definition break_ops_events :: "int list \<Rightarrow> int list \<Rightarrow> int \<Rightarrow> (int \<times> int \<times> int) list" where
  "break_ops_events positions precise limit =
     (let ops = concat (map (\<lambda>i. [(i, 1, 0), (i + limit, - 1, 0)]) positions);
          v = (if limit < 0 then - 1 else 1 :: int);
          ops = ops @ concat (map (\<lambda>i. [(i, 1, 1),
                                          (if v = - 1 then i + v + 1 else i + v, - 1, 1)]) precise)
      in if limit < 0 then rev (sort ops) else sort ops)"

definition break_ops :: "int list \<Rightarrow> int list \<Rightarrow> int \<Rightarrow> rat \<Rightarrow> error + (int \<times> int \<times> int)" where
  "break_ops positions precise limit median_pos =
     (let ops = break_ops_events positions precise limit;
          max_sum_i = scan_max ops 0 0 0 0
      in if ops = [] then Inl IndexError
         else
           (let break_point = fst (ops ! max_sum_i);
                is_precise = snd (snd (ops ! max_sum_i));
                is_precise = (if is_precise = 0 \<and> break_point \<in> set precise
                              then 1 else is_precise)
            in if is_precise \<noteq> 0 \<and> length precise > 1 then Inr (break_point, 0, is_precise)
               else if positions = [] then Inl ValueError
               else Inr (break_point,
                         py_int (\<bar>of_int (py_int (np_percentile_975 positions)) - median_pos\<bar>),
                         is_precise)))"

text \<open>
  \<^verbatim>\<open>infer_unmapped_insertion_break_point\<close>; the result is
  \<open>(main_A_break, cipos95A, preciseA, main_B_break, cipos95B, preciseB, svlen)\<close>.
\<close>

definition infer_unmapped_insertion_break_point ::
  "int \<Rightarrow> int \<Rightarrow> int \<Rightarrow> int \<Rightarrow> int \<Rightarrow> int \<Rightarrow> int \<times> int \<times> int \<times> int \<times> int \<times> int \<times> int" where
  "infer_unmapped_insertion_break_point main_A_break0 cipos95A preciseA main_B_break0 cipos95B preciseB =
     (let svlen = (0 :: int);
          (main_A_break, main_B_break, svlen) =
            (if preciseA = 0 \<and> preciseB = 0 then
               (let sep = \<bar>main_B_break0 - main_A_break0\<bar>;
                    svlen = min sep (max cipos95A cipos95B);
                    mid = py_int (of_int sep / 2) + min main_A_break0 main_B_break0
                in (mid, mid + 1, svlen))
             else (main_A_break0, main_B_break0, svlen));
          (main_A_break, svlen) =
            (if preciseA = 0 \<and> preciseB \<noteq> 0 then
               ((if main_A_break < main_B_break then main_B_break - 1 else main_B_break + 1),
                py_int (of_int cipos95A / 2))
             else (main_A_break, svlen));
          (main_B_break, svlen) =
            (if preciseB = 0 \<and> preciseA \<noteq> 0 then
               ((if main_A_break < main_B_break then main_A_break + 1 else main_A_break - 1),
                py_int (of_int cipos95B / 2))
             else (main_B_break, svlen))
      in (main_A_break, cipos95A, preciseA, main_B_break, cipos95B, preciseB, svlen))"

subsection \<open>Python values, dictionaries and exceptions\<close>

text \<open>
  The call records and the evidence aggregates are Python dictionaries with string keys
  and values of several types. A dictionary is an association list in insertion order
  (\<open>AList.update\<close> overwrites in place or appends, as a Python \<open>dict\<close> does); the empty
  dictionary \<^verbatim>\<open>{}\<close> is \<open>[]\<close>. Lists held in a dictionary only ever hold numbers.
\<close>

datatype pyval = VInt int | VFloat rat | VList "rat list" | VStr string | VBool bool | VNone

type_synonym pydict = "(string \<times> pyval) list"

definition rbind :: "error + 'a \<Rightarrow> ('a \<Rightarrow> error + 'b) \<Rightarrow> error + 'b" where
  "rbind m f = (case m of Inl e \<Rightarrow> Inl e | Inr x \<Rightarrow> f x)"

definition dget :: "pydict \<Rightarrow> string \<Rightarrow> error + pyval" where
  "dget d k = (case map_of d k of None \<Rightarrow> Inl (KeyError k) | Some x \<Rightarrow> Inr x)"

definition dset :: "pydict \<Rightarrow> string \<Rightarrow> pyval \<Rightarrow> pydict" where
  "dset d k x = AList.update k x d"


definition as_int :: "pyval \<Rightarrow> error + int" where
  "as_int x = (case x of VInt i \<Rightarrow> Inr i | VBool b \<Rightarrow> Inr (if b then 1 else 0) | _ \<Rightarrow> Inl TypeError)"

definition dget_int :: "pydict \<Rightarrow> string \<Rightarrow> error + int" where
  "dget_int d k = rbind (dget d k) as_int"


text \<open>\<^verbatim>\<open>r[k] += n\<close> and \<^verbatim>\<open>r[k].append(x)\<close>: both look the key up first.\<close>

definition dadd :: "pydict \<Rightarrow> string \<Rightarrow> int \<Rightarrow> error + pydict" where
  "dadd d k n = rbind (dget_int d k) (\<lambda>i. Inr (dset d k (VInt (i + n))))"

definition dappend :: "pydict \<Rightarrow> string \<Rightarrow> rat \<Rightarrow> error + pydict" where
  "dappend d k x =
     rbind (dget d k) (\<lambda>l. case l of VList xs \<Rightarrow> Inr (dset d k (VList (xs @ [x]))) | _ \<Rightarrow> Inl TypeError)"

subsection \<open>\<^verbatim>\<open>make_call\<close>\<close>

text \<open>
  The two sweeps of \<^verbatim>\<open>make_call\<close>, branch by branch, with the tuple unpacking of each
  source line kept as it is written there. The result is
  \<open>(main_A_break, cipos95A, preciseA, main_B_break, cipos95B, preciseB)\<close>.
\<close>

definition make_call_sweeps ::
  "int list \<Rightarrow> int list \<Rightarrow> int list \<Rightarrow> int list \<Rightarrow> string \<Rightarrow> string \<Rightarrow> int \<Rightarrow> rat \<Rightarrow> rat \<Rightarrow>
   error + (int \<times> int \<times> int \<times> int \<times> int \<times> int)" where
  "make_call_sweeps positionsA positionsB precise_a precise_b svt jt limit median_A median_B =
     (if svt = ''DEL'' then
        (if median_A < median_B then
           rbind (break_ops positionsA precise_a limit median_A) (\<lambda>(main_A_break, cipos95A, preciseA).
           rbind (break_ops positionsB precise_b (- limit) median_B) (\<lambda>(main_B_break, cipos95B, preciseB).
           Inr (main_A_break, cipos95A, preciseA, main_B_break, cipos95B, preciseB)))
         else
           rbind (break_ops positionsB precise_b limit median_B) (\<lambda>(main_B_break, cipos95B, preciseA).
           rbind (break_ops positionsA precise_a (- limit) median_A) (\<lambda>(main_A_break, cipos95A, preciseB).
           Inr (main_A_break, cipos95A, preciseA, main_B_break, cipos95B, preciseB))))
      else if svt = ''DUP'' then
        (if median_A < median_B then
           rbind (break_ops positionsA precise_a (- limit) median_A) (\<lambda>(main_A_break, cipos95A, preciseA).
           rbind (break_ops positionsB precise_b limit median_B) (\<lambda>(main_B_break, cipos95B, preciseB).
           Inr (main_A_break, cipos95A, preciseA, main_B_break, cipos95B, preciseB)))
         else
           rbind (break_ops positionsA precise_a limit median_A) (\<lambda>(main_A_break, cipos95A, preciseA).
           rbind (break_ops positionsB precise_b (- limit) median_B) (\<lambda>(main_B_break, cipos95B, preciseB).
           Inr (main_A_break, cipos95A, preciseA, main_B_break, cipos95B, preciseB))))
      else if jt = ''3to3'' then
        rbind (break_ops positionsA precise_a limit median_A) (\<lambda>(main_A_break, cipos95A, preciseA).
        rbind (break_ops positionsB precise_b limit median_B) (\<lambda>(main_B_break, cipos95B, preciseB).
        Inr (main_A_break, cipos95A, preciseA, main_B_break, cipos95B, preciseB)))
      else if jt = ''5to5'' then
        rbind (break_ops positionsA precise_a (- limit) median_A) (\<lambda>(main_A_break, cipos95A, preciseA).
        rbind (break_ops positionsB precise_b (- limit) median_B) (\<lambda>(main_B_break, cipos95B, preciseB).
        Inr (main_A_break, cipos95A, preciseA, main_B_break, cipos95B, preciseB)))
      else if jt = ''3to5'' then
        rbind (break_ops positionsA precise_a limit median_A) (\<lambda>(main_A_break, cipos95A, preciseA).
        rbind (break_ops positionsB precise_b (- limit) median_B) (\<lambda>(main_B_break, cipos95B, preciseB).
        Inr (main_A_break, cipos95A, preciseA, main_B_break, cipos95B, preciseB)))
      else
        rbind (break_ops positionsA precise_a (- limit) median_A) (\<lambda>(main_A_break, cipos95A, preciseA).
        rbind (break_ops positionsB precise_b limit median_B) (\<lambda>(main_B_break, cipos95B, preciseB).
        Inr (main_A_break, cipos95A, preciseA, main_B_break, cipos95B, preciseB))))"

text \<open>
  \<^verbatim>\<open>make_call\<close>. Both callers pass a non-empty list of hypotheses; with an empty one
  the medians are \<open>nan\<close> and the sweeps read out of range, which is an error result here.
\<close>

definition make_call ::
  "AlignmentItem list \<Rightarrow> int list \<Rightarrow> int list \<Rightarrow> string \<Rightarrow> string \<Rightarrow> int \<Rightarrow> int \<Rightarrow> error + pydict" where
  "make_call informative precise_a precise_b svt jt insert_size insert_stdev =
     (case informative of
        [] \<Rightarrow> Inl IndexError
      | i0 # _ \<Rightarrow>
         (let limit = insert_size + insert_stdev;
              positionsA = map breakA informative;
              positionsB = map breakB informative;
              median_A = np_median positionsA;
              median_B = np_median positionsB
          in rbind (make_call_sweeps positionsA positionsB precise_a precise_b svt jt limit median_A median_B)
               (\<lambda>(main_A_break, cipos95A, preciseA, main_B_break, cipos95B, preciseB).
                  (let (main_A_break, cipos95A, preciseA, main_B_break, cipos95B, preciseB, svlen) =
                         (if chrA i0 = chrB i0 then
                            (if svt = ''INS'' then
                               (let q_gaps = filter (\<lambda>g. g \<noteq> - 1) (map query_gap informative)
                                in if length q_gaps > 0 then
                                     (main_A_break, cipos95A, preciseA, main_B_break, cipos95B, preciseB,
                                      py_int (np_mean q_gaps))
                                   else infer_unmapped_insertion_break_point
                                          main_A_break cipos95A preciseA main_B_break cipos95B preciseB)
                             else (main_A_break, cipos95A, preciseA, main_B_break, cipos95B, preciseB,
                                   \<bar>main_B_break - main_A_break\<bar>))
                          else (main_A_break, cipos95A, preciseA, main_B_break, cipos95B, preciseB, 0))
                   in Inr [(''svtype'', VStr svt), (''join_type'', VStr jt),
                           (''chrA'', VInt (chrA i0)), (''chrB'', VInt (chrB i0)),
                           (''cipos95A'', VInt cipos95A), (''cipos95B'', VInt cipos95B),
                           (''posA'', VInt main_A_break), (''posB'', VInt main_B_break),
                           (''preciseA'', VInt preciseA), (''preciseB'', VInt preciseB),
                           (''svlen'', VInt svlen)]))))"

section \<open>Soft-clip resolver\<close>

text \<open>
  \<^verbatim>\<open>mask_soft_clips\<close>. A cigar is a list of \<open>(operation, length)\<close> pairs; \<^verbatim>\<open>a_ct[0]\<close> and
  \<^verbatim>\<open>a_ct[-1]\<close> are its first and last element, and reading them from an empty cigar is
  an error result. Flag tests are bitwise, as in the source. The result is
  \<open>(left_clipA, right_clipA, left_clipB, right_clipB)\<close>.
\<close>

definition mask_soft_clips ::
  "int \<Rightarrow> int \<Rightarrow> (int \<times> int) list \<Rightarrow> (int \<times> int) list \<Rightarrow> error + (int \<times> int \<times> int \<times> int)" where
  "mask_soft_clips aflag bflag a_ct b_ct =
     (if a_ct = [] \<or> b_ct = [] then Inl IndexError
      else
        (let lcA = (if fst (hd a_ct) = 4 \<or> fst (hd a_ct) = 5 then 1 else 0 :: int);
             rcA = (if fst (last a_ct) = 4 \<or> fst (last a_ct) = 5 then 1 else 0 :: int);
             lcB = (if fst (hd b_ct) = 4 \<or> fst (hd b_ct) = 5 then 1 else 0 :: int);
             rcB = (if fst (last b_ct) = 4 \<or> fst (last b_ct) = 5 then 1 else 0 :: int)
         in if aflag AND 64 = bflag AND 64 then
              (if (lcB \<noteq> 0 \<and> rcB \<noteq> 0) \<or> (lcA \<noteq> 0 \<and> rcA \<noteq> 0) then
                 (let a_template_start =
                        (if aflag AND 16 \<noteq> 0
                         then (if fst (last a_ct) \<noteq> 0 then snd (last a_ct) else 0)
                         else (if fst (hd a_ct) \<noteq> 0 then snd (hd a_ct) else 0));
                      b_template_start =
                        (if bflag AND 16 \<noteq> 0
                         then (if fst (last b_ct) \<noteq> 0 then snd (last b_ct) else 0)
                         else (if fst (hd b_ct) \<noteq> 0 then snd (hd b_ct) else 0));
                      (lcB, rcB) =
                        (if lcB \<noteq> 0 \<and> rcB \<noteq> 0 then
                           (if b_template_start < a_template_start then
                              (if \<not> bflag AND 16 \<noteq> 0 then (0, rcB) else (lcB, 0))
                            else
                              (if \<not> bflag AND 16 \<noteq> 0 then (lcB, 0) else (0, rcB)))
                         else (lcB, rcB));
                      (lcA, rcA) =
                        (if lcA \<noteq> 0 \<and> rcA \<noteq> 0 then
                           (if a_template_start < b_template_start then
                              (if \<not> aflag AND 16 \<noteq> 0 then (0, rcA) else (lcA, 0))
                            else
                              (if \<not> aflag AND 16 \<noteq> 0 then (lcA, 0) else (0, rcA)))
                         else (lcA, rcA))
                  in Inr (lcA, rcA, lcB, rcB))
               else Inr (lcA, rcA, lcB, rcB))
            else
              (let (lcB, rcB) =
                     (if lcB \<noteq> 0 \<and> rcB \<noteq> 0 then
                        (if snd (hd b_ct) > snd (last b_ct) then (lcB, 0) else (0, rcB))
                      else (lcB, rcB));
                   (lcA, rcA) =
                     (if lcA \<noteq> 0 \<and> rcA \<noteq> 0 then
                        (if snd (hd a_ct) > snd (last a_ct) then (lcA, 0) else (0, rcA))
                      else (lcA, rcA))
               in Inr (lcA, rcA, lcB, rcB))))"

section \<open>Evidence aggregator\<close>

text \<open>
  An alignment record as the aggregator reads it (a pysam \<open>AlignedSegment\<close>): template
  name, flag bits, mapping quality, cigar and the optional tags. A numeric tag is
  \<open>None\<close> when \<^verbatim>\<open>has_tag\<close> is false; \<open>tag_SA\<close> is the string of the SA tag.
\<close>

record read =
  qname :: string
  flag :: int
  mapq :: int
  cigartuples :: "(int \<times> int) list"
  tag_DP :: "rat option"
  tag_DN :: "rat option"
  tag_DA :: "rat option"
  tag_NM :: "rat option"
  tag_AS :: "rat option"
  tag_SA :: "string option"

definition n_aligned_bases :: "(int \<times> int) list \<Rightarrow> rat \<times> rat \<times> rat" where
  "n_aligned_bases ct =
     (let (aligned, large_gaps, n_small_gaps) =
            foldl (\<lambda>(aligned, large_gaps, n_small_gaps) (opp, l).
                     if opp = 0 then (aligned + l, large_gaps, n_small_gaps)
                     else if opp = 1 \<or> opp = 2 then
                       (if l \<ge> 30 then (aligned, large_gaps + l, n_small_gaps)
                        else (aligned, large_gaps, n_small_gaps + 1))
                     else (aligned, large_gaps, n_small_gaps))
                  (0 :: int, 0 :: int, 0 :: int) ct
      in (of_int aligned, of_int large_gaps, of_int n_small_gaps))"

text \<open>A \<^verbatim>\<open>for\<close> loop over a list whose body may raise.\<close>

fun for_each :: "('a \<Rightarrow> 's \<Rightarrow> error + 's) \<Rightarrow> 'a list \<Rightarrow> 's \<Rightarrow> error + 's" where
  "for_each f [] s = Inr s"
| "for_each f (x # xs) s = rbind (f x s) (for_each f xs)"

text \<open>
  Statements that occur in several places of the two aggregators:
  \<^item> \<open>append_tag\<close>: \<^verbatim>\<open>if a.has_tag(T): r[k].append(float(a.get_tag(T)))\<close>;
  \<^item> \<open>append_n_sa\<close>: \<^verbatim>\<open>if a.has_tag("SA"): r["n_sa"].append(a.get_tag("SA").count(";"))\<close>;
  \<^item> \<open>append_n_gaps\<close>: \<^verbatim>\<open>r["n_gaps"].append(n_small_gaps / a_bases)\<close>, which looks the key
    up, then divides (division by zero raises), then appends;
  \<^item> \<open>append_NM_pri\<close> and \<open>append_NM_supp\<close>: the \<^verbatim>\<open>if a.has_tag("NM")\<close> blocks of primary
    and supplementary alignments;
  \<^item> \<open>count_strand\<close>: \<^verbatim>\<open>if flag & 16: r["minus"] += 1 else: r["plus"] += 1\<close>;
  \<^item> \<open>count_sc\<close>: \<^verbatim>\<open>if ct[0][0] == 4 or ct[-1][0] == 4: r["sc"] += 1\<close>.
\<close>

definition append_tag :: "pydict \<Rightarrow> string \<Rightarrow> rat option \<Rightarrow> error + pydict" where
  "append_tag r k t = (case t of None \<Rightarrow> Inr r | Some x \<Rightarrow> dappend r k x)"

definition append_n_sa :: "pydict \<Rightarrow> read \<Rightarrow> error + pydict" where
  "append_n_sa r a =
     (case tag_SA a of None \<Rightarrow> Inr r
      | Some sa \<Rightarrow> dappend r ''n_sa'' (of_nat (length (filter (\<lambda>c. c = CHR '';'') sa))))"

definition append_n_gaps :: "pydict \<Rightarrow> rat \<Rightarrow> rat \<Rightarrow> error + pydict" where
  "append_n_gaps r n_small_gaps a_bases =
     rbind (dget r ''n_gaps'') (\<lambda>_.
       if a_bases = 0 then Inl ZeroDivisionError
       else dappend r ''n_gaps'' (n_small_gaps / a_bases))"

definition append_NM_pri :: "pydict \<Rightarrow> read \<Rightarrow> rat \<Rightarrow> rat \<Rightarrow> error + pydict" where
  "append_NM_pri r a a_bases large_gaps =
     (case tag_NM a of None \<Rightarrow> Inr r
      | Some nm \<Rightarrow>
          if a_bases \<noteq> 0 then
            rbind (dappend r ''NMpri'' (nm / a_bases)) (\<lambda>r.
            dappend r ''NMbase'' ((nm - large_gaps) / a_bases))
          else dappend r ''NMpri'' 0)"

definition append_NM_supp :: "pydict \<Rightarrow> read \<Rightarrow> rat \<Rightarrow> error + pydict" where
  "append_NM_supp r a a_bases =
     (case tag_NM a of None \<Rightarrow> Inr r
      | Some nm \<Rightarrow> if a_bases \<noteq> 0 then dappend r ''NMsupp'' (nm / a_bases)
                   else dappend r ''NMsupp'' 0)"

definition count_strand :: "pydict \<Rightarrow> read \<Rightarrow> error + pydict" where
  "count_strand r a = (if flag a AND 16 \<noteq> 0 then dadd r ''minus'' 1 else dadd r ''plus'' 1)"

definition count_sc :: "pydict \<Rightarrow> read \<Rightarrow> error + pydict" where
  "count_sc r a =
     (case cigartuples a of [] \<Rightarrow> Inl IndexError
      | c # cs \<Rightarrow> if fst c = 4 \<or> fst (last (c # cs)) = 4 then dadd r ''sc'' 1 else Inr r)"

text \<open>
  The end of both aggregators: a list becomes its mean (times \<open>scale\<close>), or the integer
  \<open>0\<close> when it is empty; \<^verbatim>\<open>maxASsupp\<close> becomes \<^verbatim>\<open>int(max(...))\<close>.
\<close>

definition reduce_mean :: "rat \<Rightarrow> string \<Rightarrow> pydict \<Rightarrow> error + pydict" where
  "reduce_mean scale k r =
     rbind (dget r k) (\<lambda>l. case l of
         VList xs \<Rightarrow> Inr (dset r k (if length xs > 0
                                     then VFloat (sum_list xs / of_nat (length xs) * scale)
                                     else VInt 0))
       | _ \<Rightarrow> Inl TypeError)"

definition reduce_max :: "string \<Rightarrow> pydict \<Rightarrow> error + pydict" where
  "reduce_max k r =
     rbind (dget r k) (\<lambda>l. case l of
         VList xs \<Rightarrow> Inr (dset r k (if length xs > 0
                                     then VInt (py_int (fold max (tl xs) (hd xs)))
                                     else VInt 0))
       | _ \<Rightarrow> Inl TypeError)"

subsection \<open>\<^verbatim>\<open>extended_attrs\<close>\<close>

text \<open>
  The loop state is the dictionary \<open>r\<close> and the sets \<open>paired_end\<close> and \<open>seen\<close> (as
  lists of template names). \<open>extended_attrs_read\<close> is the body of the loop over
  \<^verbatim>\<open>itertools.chain(reads1, reads2)\<close>, \<open>extended_attrs_spanning\<close> the body of the loop over
  \<^verbatim>\<open>spanning\<close>.
\<close>

definition extended_seen_once ::
  "read \<Rightarrow> pydict \<Rightarrow> string list \<Rightarrow> error + (pydict \<times> string list)" where
  "extended_seen_once a r seen =
     (if qname a \<notin> set seen then
        rbind (append_tag r ''DP'' (tag_DP a)) (\<lambda>r.
        rbind (append_tag r ''DN'' (tag_DN a)) (\<lambda>r.
        Inr (r, qname a # seen)))
      else Inr (r, seen))"

definition extended_attrs_read ::
  "bool \<Rightarrow> read \<Rightarrow> pydict \<times> string list \<times> string list \<Rightarrow>
   error + (pydict \<times> string list \<times> string list)" where
  "extended_attrs_read is_insertion a st =
     (case st of (r, paired_end, seen) \<Rightarrow>
      rbind (extended_seen_once a r seen) (\<lambda>(r, seen).
      rbind (if flag a AND 2 \<noteq> 0 then dadd r ''NP'' 1 else Inr r) (\<lambda>r.
      rbind (append_n_sa r a) (\<lambda>r.
      case n_aligned_bases (cigartuples a) of (a_bases, large_gaps, n_small_gaps) \<Rightarrow>
      rbind (append_n_gaps r n_small_gaps a_bases) (\<lambda>r.
      rbind
        (if flag a AND 256 = 0 then
           rbind (dappend r ''MAPQpri'' (of_int (mapq a))) (\<lambda>r.
           rbind (if qname a \<in> set paired_end
                  then rbind (dadd r ''pe'' 1) (\<lambda>r. Inr (r, paired_end, True))
                  else Inr (r, qname a # paired_end, False)) (\<lambda>(r, paired_end, pe_support).
           rbind (if \<not> pe_support \<and> is_insertion then
                    (if (tag_SA a \<noteq> None \<and> flag a AND 2 \<noteq> 0) \<or> flag a AND 8 \<noteq> 0
                     then dadd r ''pe'' 1 else Inr r)
                  else Inr r) (\<lambda>r.
           rbind (append_tag r ''DApri'' (tag_DA a)) (\<lambda>r.
           rbind (append_NM_pri r a a_bases large_gaps) (\<lambda>r.
           Inr (r, paired_end))))))
         else if flag a AND 2304 \<noteq> 0 then
           rbind (dadd r ''supp'' 1) (\<lambda>r.
           rbind (dappend r ''MAPQsupp'' (of_int (mapq a))) (\<lambda>r.
           rbind (append_tag r ''DAsupp'' (tag_DA a)) (\<lambda>r.
           rbind (append_NM_supp r a a_bases) (\<lambda>r.
           rbind (append_tag r ''maxASsupp'' (tag_AS a)) (\<lambda>r.
           Inr (r, paired_end))))))
         else Inr (r, paired_end)) (\<lambda>(r, paired_end).
      rbind (count_strand r a) (\<lambda>r.
      rbind (count_sc r a) (\<lambda>r.
      Inr (r, paired_end, seen)))))))))"

definition extended_attrs_spanning ::
  "read \<Rightarrow> pydict \<times> string list \<times> string list \<Rightarrow> error + (pydict \<times> string list \<times> string list)" where
  "extended_attrs_spanning a st =
     (case st of (r, paired_end, seen) \<Rightarrow>
      rbind (extended_seen_once a r seen) (\<lambda>(r, seen).
      rbind (if flag a AND 2 \<noteq> 0 then dadd r ''NP'' 1 else Inr r) (\<lambda>r.
      rbind (append_n_sa r a) (\<lambda>r.
      case n_aligned_bases (cigartuples a) of (a_bases, large_gaps, n_small_gaps) \<Rightarrow>
      rbind (append_n_gaps r n_small_gaps a_bases) (\<lambda>r.
      rbind
        (if flag a AND 2304 \<noteq> 0 then
           rbind (dadd r ''supp'' 2) (\<lambda>r.
           rbind (dappend r ''MAPQsupp'' (of_int (mapq a))) (\<lambda>r.
           rbind (append_tag r ''DAsupp'' (tag_DA a)) (\<lambda>r.
           rbind (append_NM_supp r a a_bases) (\<lambda>r.
           rbind (append_tag r ''maxASsupp'' (tag_AS a)) (\<lambda>r.
           Inr (r, paired_end))))))
         else
           rbind (dappend r ''MAPQpri'' (of_int (mapq a))) (\<lambda>r.
           rbind (if qname a \<in> set paired_end
                  then rbind (dadd r ''pe'' 2) (\<lambda>r. Inr (r, paired_end))
                  else Inr (r, qname a # paired_end)) (\<lambda>(r, paired_end).
           rbind (append_tag r ''DApri'' (tag_DA a)) (\<lambda>r.
           rbind (append_NM_pri r a a_bases large_gaps) (\<lambda>r.
           Inr (r, paired_end)))))) (\<lambda>(r, paired_end).
      rbind (count_strand r a) (\<lambda>r.
      Inr (r, paired_end, seen))))))))"

definition extended_attrs_init :: "read list \<Rightarrow> pydict" where
  "extended_attrs_init spanning =
     [(''pe'', VInt 0), (''supp'', VInt 0), (''sc'', VInt 0), (''DP'', VList []),
      (''DApri'', VList []), (''DN'', VList []), (''NMpri'', VList []), (''NP'', VInt 0),
      (''DAsupp'', VList []), (''NMsupp'', VList []), (''maxASsupp'', VList []),
      (''MAPQpri'', VList []), (''MAPQsupp'', VList []), (''plus'', VInt 0), (''minus'', VInt 0),
      (''spanning'', VInt (int (length spanning))), (''NMbase'', VList []), (''n_sa'', VList [])]"

definition extended_attrs ::
  "read list \<Rightarrow> read list \<Rightarrow> read list \<Rightarrow> int \<Rightarrow> pyval \<Rightarrow> error + pydict" where
  "extended_attrs reads1 reads2 spanning min_support svt =
     (let r = extended_attrs_init spanning;
          is_insertion = (svt = VStr ''INS'')
      in rbind (for_each (extended_attrs_read is_insertion) (reads1 @ reads2) (r, [], []))
           (\<lambda>st.
         rbind (for_each extended_attrs_spanning spanning st) (\<lambda>(r, paired_end, seen).
         rbind (dget_int r ''pe'') (\<lambda>pe.
         rbind (dget_int r ''supp'') (\<lambda>supp.
         if pe + supp < min_support then Inr []
         else
           rbind (for_each (reduce_mean 100) [''NMpri'', ''NMsupp'', ''NMbase'', ''n_gaps''] r) (\<lambda>r.
           rbind (for_each (reduce_mean 1)
                    [''DP'', ''DApri'', ''DN'', ''DAsupp'', ''MAPQpri'', ''MAPQsupp'', ''n_sa''] r) (\<lambda>r.
           reduce_max ''maxASsupp'' r)))))))"

subsection \<open>\<^verbatim>\<open>normal_attrs\<close>\<close>

definition normal_attrs_read ::
  "bool \<Rightarrow> read \<Rightarrow> pydict \<times> string list \<Rightarrow> error + (pydict \<times> string list)" where
  "normal_attrs_read is_insertion a st =
     (case st of (r, paired_end) \<Rightarrow>
      rbind (append_n_sa r a) (\<lambda>r.
      case n_aligned_bases (cigartuples a) of (a_bases, large_gaps, n_small_gaps) \<Rightarrow>
      rbind (append_n_gaps r n_small_gaps a_bases) (\<lambda>r.
      rbind (if flag a AND 2 \<noteq> 0 then dadd r ''NP'' 1 else Inr r) (\<lambda>r.
      rbind
        (if flag a AND 2304 \<noteq> 0 then
           rbind (dadd r ''supp'' 1) (\<lambda>r.
           rbind (dappend r ''MAPQsupp'' (of_int (mapq a))) (\<lambda>r.
           rbind (append_NM_supp r a a_bases) (\<lambda>r.
           rbind (append_tag r ''maxASsupp'' (tag_AS a)) (\<lambda>r.
           Inr (r, paired_end)))))
         else
           rbind (dappend r ''MAPQpri'' (of_int (mapq a))) (\<lambda>r.
           rbind (if qname a \<in> set paired_end
                  then rbind (dadd r ''pe'' 1) (\<lambda>r. Inr (r, paired_end, True))
                  else Inr (r, qname a # paired_end, False)) (\<lambda>(r, paired_end, pe_support).
           rbind (if \<not> pe_support \<and> is_insertion then
                    (if (tag_SA a \<noteq> None \<and> flag a AND 2 \<noteq> 0) \<or> flag a AND 8 \<noteq> 0
                     then dadd r ''pe'' 1 else Inr r)
                  else Inr r) (\<lambda>r.
           rbind (append_NM_pri r a a_bases large_gaps) (\<lambda>r.
           Inr (r, paired_end)))))) (\<lambda>(r, paired_end).
      rbind (count_strand r a) (\<lambda>r.
      rbind (count_sc r a) (\<lambda>r.
      Inr (r, paired_end))))))))"

definition normal_attrs_spanning ::
  "read \<Rightarrow> pydict \<times> string list \<Rightarrow> error + (pydict \<times> string list)" where
  "normal_attrs_spanning a st =
     (case st of (r, paired_end) \<Rightarrow>
      case n_aligned_bases (cigartuples a) of (a_bases, large_gaps, n_small_gaps) \<Rightarrow>
      rbind (append_n_sa r a) (\<lambda>r.
      rbind (append_n_gaps r n_small_gaps a_bases) (\<lambda>r.
      rbind (if flag a AND 2 \<noteq> 0 then dadd r ''NP'' 1 else Inr r) (\<lambda>r.
      rbind
        (if flag a AND 256 = 0 then
           rbind (dappend r ''MAPQpri'' (of_int (mapq a))) (\<lambda>r.
           rbind (if qname a \<in> set paired_end
                  then rbind (dadd r ''pe'' 2) (\<lambda>r. Inr (r, paired_end))
                  else Inr (r, qname a # paired_end)) (\<lambda>(r, paired_end).
           rbind (append_NM_pri r a a_bases large_gaps) (\<lambda>r.
           Inr (r, paired_end))))
         else if flag a AND 2304 \<noteq> 0 then
           rbind (dadd r ''supp'' 2) (\<lambda>r.
           rbind (dappend r ''MAPQsupp'' (of_int (mapq a))) (\<lambda>r.
           rbind (append_NM_supp r a a_bases) (\<lambda>r.
           rbind (append_tag r ''maxASsupp'' (tag_AS a)) (\<lambda>r.
           Inr (r, paired_end)))))
         else Inr (r, paired_end)) (\<lambda>(r, paired_end).
      rbind (count_strand r a) (\<lambda>r.
      Inr (r, paired_end)))))))"

definition normal_attrs_init :: "read list \<Rightarrow> pydict" where
  "normal_attrs_init spanning =
     [(''pe'', VInt 0), (''supp'', VInt 0), (''sc'', VInt 0), (''NMpri'', VList []),
      (''NMsupp'', VList []), (''maxASsupp'', VList []), (''MAPQpri'', VList []),
      (''MAPQsupp'', VList []), (''plus'', VInt 0), (''minus'', VInt 0), (''NP'', VInt 0),
      (''spanning'', VInt (int (length spanning))), (''NMbase'', VList []),
      (''n_gaps'', VList []), (''n_sa'', VList [])]"

definition normal_attrs ::
  "read list \<Rightarrow> read list \<Rightarrow> read list \<Rightarrow> int \<Rightarrow> pyval \<Rightarrow> error + pydict" where
  "normal_attrs reads1 reads2 spanning min_support svt =
     (let r = normal_attrs_init spanning;
          is_insertion = (svt = VStr ''INS'')
      in rbind (for_each (normal_attrs_read is_insertion) (reads1 @ reads2) (r, [])) (\<lambda>st.
         rbind (for_each normal_attrs_spanning spanning st) (\<lambda>(r, paired_end).
         rbind (for_each (reduce_mean 100) [''NMpri'', ''NMsupp'', ''NMbase'', ''n_gaps''] r) (\<lambda>r.
         rbind (for_each (reduce_mean 1) [''MAPQpri'', ''MAPQsupp'', ''n_sa''] r) (\<lambda>r.
         reduce_max ''maxASsupp'' r)))))"

definition count_attributes ::
  "read list \<Rightarrow> read list \<Rightarrow> read list \<Rightarrow> int \<Rightarrow> int \<Rightarrow> pyval \<Rightarrow> error + pydict" where
  "count_attributes reads1 reads2 spanning min_support extended_tags svt =
     (if extended_tags \<noteq> 0 then extended_attrs reads1 reads2 spanning min_support svt
      else normal_attrs reads1 reads2 spanning min_support svt)"

section \<open>Cluster orchestrator: the final steps of \<^verbatim>\<open>single\<close> and \<^verbatim>\<open>one_edge\<close>\<close>










section \<open>Regional annotation\<close>

text \<open>
  \<^verbatim>\<open>get_raw_coverage_information\<close> in its three stages: the decision on \<open>kind\<close> and
  \<open>switch\<close>, the exchange of the A and B labels, and the depth annotation. The region
  index and the depth tables are external and parameters here:
  \<^item> \<open>intersecterpy c s e\<close> is \<^verbatim>\<open>io_funcs.intersecterpy(regions, c, s, e)\<close>;
  \<^item> \<open>find_overlap c s e\<close> is \<^verbatim>\<open>list(regions[c].find_overlap(s, e))\<close>, a list of intervals
    of which the source compares the first two components;
  \<^item> \<open>coverage c s e\<close> is \<open>None\<close> when the chromosome has no depth table
    (\<^verbatim>\<open>chrom_i not in regions_depth\<close>) and the rounded
    \<^verbatim>\<open>coverage.calculate_coverage(s, e, regions_depth[chrom_i])\<close> otherwise.
\<close>

definition py_first :: "'a list \<Rightarrow> error + 'a" where
  "py_first xs = (case xs of [] \<Rightarrow> Inl IndexError | x # _ \<Rightarrow> Inr x)"

text \<open>\<^verbatim>\<open>sorted([a, b])[0]\<close> for two chromosome names or ids.\<close>

definition py_less :: "pyval \<Rightarrow> pyval \<Rightarrow> error + bool" where
  "py_less x y =
     (case (x, y) of
        (VInt i, VInt j) \<Rightarrow> Inr (i < j)
      | (VStr s, VStr t) \<Rightarrow> Inr (s < t)
      | _ \<Rightarrow> Inl TypeError)"

definition sorted_pair_first :: "pyval \<Rightarrow> pyval \<Rightarrow> error + pyval" where
  "sorted_pair_first a b = rbind (py_less b a) (\<lambda>lt. Inr (if lt then b else a))"

text \<open>
  The decision. The first assignment \<^verbatim>\<open>switch = True\<close> (extra-regional call with
  \<open>posA > posB\<close>) is overwritten by the \<^verbatim>\<open>switch = False\<close> that follows it, as in
  the source.
\<close>

definition regional_kind ::
  "(pyval \<Rightarrow> int \<Rightarrow> int \<Rightarrow> bool) \<Rightarrow> (pyval \<Rightarrow> int \<Rightarrow> int \<Rightarrow> (int \<times> int) list) \<Rightarrow> pydict \<Rightarrow>
   error + (string \<times> bool)" where
  "regional_kind intersecterpy find_overlap r =
     rbind (dget r ''chrA'') (\<lambda>cA.
     rbind (dget_int r ''posA'') (\<lambda>pA.
     rbind (dget r ''chrB'') (\<lambda>cB.
     rbind (dget_int r ''posB'') (\<lambda>pB.
     (let ar = intersecterpy cA pA (pA + 1);
          br = intersecterpy cB pB (pB + 1);
          kind = ''extra-regional'';
          switch = (\<not> ar \<and> \<not> br \<and> cA = cB \<and> pA > pB);
          switch = False;
          (kind, switch) =
            (if (br \<and> \<not> ar) \<or> (\<not> br \<and> ar)
             then (''hemi-regional'', if \<not> br \<and> ar then True else switch)
             else (kind, switch))
      in if ar \<and> br then
           (if cA = cB then
              rbind (py_first (find_overlap cA pA (pA + 1))) (\<lambda>rA.
              rbind (py_first (find_overlap cB pB (pB + 1))) (\<lambda>rB.
              if fst rA = fst rB \<and> snd rA = snd rB
              then Inr (''intra_regional'', if pA > pB then True else switch)
              else rbind (sorted_pair_first cA cB) (\<lambda>c0.
                     Inr (''inter-regional'', if cA \<noteq> c0 then True else switch))))
            else Inr (''inter-regional'', switch))
         else Inr (kind, switch))))))"

text \<open>The \<^verbatim>\<open>if switch:\<close> block, statement by statement.\<close>

definition switch_sides :: "pydict \<Rightarrow> error + pydict" where
  "switch_sides r =
     rbind (dget r ''chrA'') (\<lambda>chrA0.
     rbind (dget r ''posA'') (\<lambda>posA0.
     rbind (dget r ''cipos95A'') (\<lambda>cipos95A0.
     rbind (dget r ''contig2'') (\<lambda>contig20.
     rbind (dget r ''chrB'') (\<lambda>x.
     (let r = dset r ''chrA'' x in
     rbind (dget r ''posB'') (\<lambda>x.
     (let r = dset r ''posA'' x in
     rbind (dget r ''cipos95B'') (\<lambda>x.
     (let r = dset r ''cipos95A'' x;
          r = dset r ''chrB'' chrA0;
          r = dset r ''posB'' posA0;
          r = dset r ''cipos95B'' cipos95A0 in
     rbind (dget r ''contig'') (\<lambda>x.
     (let r = dset r ''contig2'' x
      in Inr (dset r ''contig'' contig20)))))))))))))"

definition num_of :: "rat option \<Rightarrow> pyval" where
  "num_of c = (case c of None \<Rightarrow> VInt 0 | Some x \<Rightarrow> VFloat x)"

definition num_val :: "rat option \<Rightarrow> rat" where
  "num_val c = (case c of None \<Rightarrow> 0 | Some x \<Rightarrow> x)"

definition annotate_depth ::
  "(pyval \<Rightarrow> int \<Rightarrow> int \<Rightarrow> rat option) \<Rightarrow> string \<Rightarrow> pydict \<Rightarrow> error + pydict" where
  "annotate_depth coverage kind r =
     rbind (dget r ''chrA'') (\<lambda>cA.
     rbind (dget_int r ''posA'') (\<lambda>pA.
     rbind (if kind = ''hemi-regional'' then Inr (num_of (coverage cA (pA - 10000) (pA + 10000)))
            else
              rbind (dget r ''chrB'') (\<lambda>cB.
              rbind (dget_int r ''posB'') (\<lambda>pB.
              (let reads_10kb_left = coverage cA (pA - 10000) (pA + 10000);
                   reads_10kb_right = coverage cB (pB - 10000) (pB + 10000)
               in Inr (if num_val reads_10kb_left > num_val reads_10kb_right
                       then num_of reads_10kb_left else num_of reads_10kb_right))))) (\<lambda>reads_10kb.
     (let r = dset r ''kind'' (VStr kind);
          r = dset r ''raw_reads_10kb'' reads_10kb
      in rbind (dget r ''chrA'') (\<lambda>cA.
         rbind (dget r ''chrB'') (\<lambda>cB.
         (let r = (if cA \<noteq> cB then dset r ''svlen'' (VInt 1000000) else r)
          in rbind (dget_int r ''pe'') (\<lambda>pe.
             rbind (dget_int r ''supp'') (\<lambda>supp.
             rbind (dget_int r ''spanning'') (\<lambda>spanning.
             Inr (dset r ''su'' (VInt (pe + supp + spanning)))))))))))))"

definition get_raw_coverage_information ::
  "(pyval \<Rightarrow> int \<Rightarrow> int \<Rightarrow> bool) \<Rightarrow> (pyval \<Rightarrow> int \<Rightarrow> int \<Rightarrow> (int \<times> int) list) \<Rightarrow>
   (pyval \<Rightarrow> int \<Rightarrow> int \<Rightarrow> rat option) \<Rightarrow> pydict \<Rightarrow> error + pydict" where
  "get_raw_coverage_information intersecterpy find_overlap coverage r =
     rbind (regional_kind intersecterpy find_overlap r) (\<lambda>(kind, switch).
     rbind (if switch then switch_sides r else Inr r) (\<lambda>r.
     annotate_depth coverage kind r))"

section \<open>Concrete inputs\<close>

text \<open>
  A primary alignment A (forward, right-clipped, \<open>100..200\<close>) and a supplementary
  alignment B on another read of the pair (reverse, left-clipped, \<open>500..600\<close>).
\<close>

definition del_shaped_pair :: AlignmentItem where
  "del_shaped_pair = new_AlignmentItem 1 1 1 0 1 2 100 200 500 600 3 5 0 1 1 0 0 100 50 150 0"

text \<open>
  A split read of 150 bases: primary A (\<open>100..200\<close>, right-clipped, query \<open>0..100\<close>)
  and supplementary B of the same read and strand (\<open>190..245\<close>, left-clipped, query
  \<open>95..150\<close>). The two alignments overlap by 10 bases on the reference and by 5 on the
  read.
\<close>

definition split_read_overlap :: AlignmentItem where
  "split_read_overlap = new_AlignmentItem 1 1 1 0 1 1 100 200 190 245 3 3 0 1 1 0 0 100 95 150 0"

text \<open>
  Two primary alignments of a pair, both on the reverse strand: A (\<open>100..200\<close>)
  left-clipped, B (\<open>500..600\<close>) right-clipped.
\<close>

definition reverse_pair :: AlignmentItem where
  "reverse_pair = new_AlignmentItem 1 1 1 1 1 2 100 200 500 600 5 5 1 0 0 1 50 150 0 100 0"

text \<open>
  Two primary alignments of a pair in the deletion orientation with B first: A
  (\<open>500..600\<close>, reverse, left-clipped) and B (\<open>100..200\<close>, forward, not clipped).
\<close>

definition del_pair_b_first :: AlignmentItem where
  "del_pair_b_first = new_AlignmentItem 1 1 1 1 1 2 500 600 100 200 5 3 1 0 0 0 50 150 0 100 0"

text \<open>
  A finished cross-chromosome call record, and a region index that holds all of
  \<open>chr2\<close> and nothing else, with no depth table.
\<close>

definition tra_call :: pydict where
  "tra_call =
     [(''svtype'', VStr ''TRA''), (''join_type'', VStr ''3to5''),
      (''chrA'', VStr ''chr2''), (''chrB'', VStr ''chr1''),
      (''cipos95A'', VInt 12), (''cipos95B'', VInt 0),
      (''posA'', VInt 5000), (''posB'', VInt 900),
      (''preciseA'', VInt 0), (''preciseB'', VInt 1), (''svlen'', VInt 0),
      (''pe'', VInt 3), (''supp'', VInt 2), (''sc'', VInt 1), (''spanning'', VInt 0),
      (''linked'', VInt 0), (''block_edge'', VInt 1),
      (''contig'', VNone), (''contig2'', VStr ''ACGT''), (''ref_bases'', VInt 4)]"

definition targets_chr2 :: "pyval \<Rightarrow> int \<Rightarrow> int \<Rightarrow> bool" where
  "targets_chr2 c s e \<longleftrightarrow> c = VStr ''chr2''"

definition no_overlaps :: "pyval \<Rightarrow> int \<Rightarrow> int \<Rightarrow> (int \<times> int) list" where
  "no_overlaps c s e = []"

definition no_depth :: "pyval \<Rightarrow> int \<Rightarrow> int \<Rightarrow> rat option" where
  "no_depth c s e = None"

text \<open>
  A primary alignment \<open>60M40S\<close> and the supplementary alignment \<open>60S40M\<close> of the same
  read (paired, first in pair, not a proper pair); a call record of type \<open>INS\<close> as
  \<^verbatim>\<open>make_call\<close> builds it; an assembler that assembles nothing.
\<close>

definition pri_read :: read where
  "pri_read = \<lparr> qname = ''r1'', flag = 97, mapq = 60, cigartuples = [(0, 60), (4, 40)],
      tag_DP = None, tag_DN = None, tag_DA = None, tag_NM = Some 1, tag_AS = Some 58,
      tag_SA = Some ''chr1,161,+,60S40M,30,0;'' \<rparr>"





section \<open>Properties of the classifier\<close>


lemma classify_d_different_read:
  "chrA v = chrB v \<Longrightarrow> \<not> (priA v \<noteq> 0 \<and> priB v \<noteq> 0) \<Longrightarrow> rA v \<noteq> rB v \<Longrightarrow>
     classify_d v = different_read (v\<lparr>breakA_precise := 0, breakB_precise := 0\<rparr>)"
  by (auto simp add: classify_d_def Let_def)

lemma different_read_del_shape:
  assumes "((posA v < posB v \<or> (posA v = posB v \<and> endA v \<le> endB v)) \<and> strandA v = 3 \<and> strandB v = 5)
       \<or> (\<not> (posA v < posB v \<or> (posA v = posB v \<and> endA v \<le> endB v)) \<and> strandA v = 5 \<and> strandB v = 3)"
  shows "svtype (different_read v) = ''INS'' \<and> join_type (different_read v) = ''3to5''"
  using assms by (auto simp: different_read_def set_breaks_def)

text \<open>
  Claim C4. In the different-physical-read regime (same chromosome, not both primary,
  \<open>rA \<noteq> rB\<close>), a pair on opposite strands in the deletion-shaped orientation (A first
  with A forward and B reverse, or B first with A reverse and B forward) is classified
  as \<open>INS\<close>, not \<open>DEL\<close>, with join type \<open>3to5\<close>.
\<close>

theorem different_read_del_shape_is_INS:
  assumes "chrA v = chrB v" and "\<not> (priA v \<noteq> 0 \<and> priB v \<noteq> 0)" and "rA v \<noteq> rB v"
    and "((posA v < posB v \<or> (posA v = posB v \<and> endA v \<le> endB v)) \<and> strandA v = 3 \<and> strandB v = 5)
       \<or> (\<not> (posA v < posB v \<or> (posA v = posB v \<and> endA v \<le> endB v)) \<and> strandA v = 5 \<and> strandB v = 3)"
  shows "svtype (classify_d v) = ''INS'' \<and> svtype (classify_d v) \<noteq> ''DEL''
         \<and> join_type (classify_d v) = ''3to5''"
proof -
  let ?u = "v\<lparr>breakA_precise := 0, breakB_precise := 0\<rparr>"
  have "classify_d v = different_read ?u"
    using assms(1-3) by (rule classify_d_different_read)
  moreover have "svtype (different_read ?u) = ''INS'' \<and> join_type (different_read ?u) = ''3to5''"
    by (rule different_read_del_shape) (use assms(4) in simp)
  ultimately show ?thesis by simp
qed

theorem different_read_del_shape_is_INS_witness:
  "chrA del_shaped_pair = chrB del_shaped_pair
   \<and> \<not> (priA del_shaped_pair \<noteq> 0 \<and> priB del_shaped_pair \<noteq> 0)
   \<and> rA del_shaped_pair \<noteq> rB del_shaped_pair
   \<and> posA del_shaped_pair < posB del_shaped_pair
   \<and> strandA del_shaped_pair = 3 \<and> strandB del_shaped_pair = 5
   \<and> svtype (classify_d del_shaped_pair) = ''INS''
   \<and> join_type (classify_d del_shaped_pair) = ''3to5''"
  using different_read_del_shape_is_INS [of del_shaped_pair]
  by (simp add: del_shaped_pair_def new_AlignmentItem_def)





text \<open>
  Claim C5 (the code departs from it). After an intra-chromosomal classification
  \<open>breakB_precise\<close> should be \<open>1\<close> only when the side chosen for \<open>breakB\<close> carries a clip.
  For two primary alignments on the reverse strand, A left-clipped and B right-clipped,
  \<^verbatim>\<open>two_primary\<close> puts \<open>breakB\<close> at \<open>posB\<close> and tests \<open>right_clipB\<close>: the break is
  flagged precise although B has no left clip.
\<close>

theorem two_primary_precise_without_clip:
  "chrA reverse_pair = chrB reverse_pair
   \<and> breakB (classify_d reverse_pair) = posB reverse_pair
   \<and> breakB (classify_d reverse_pair) \<noteq> endB reverse_pair
   \<and> breakB_precise (classify_d reverse_pair) = 1
   \<and> left_clipB reverse_pair = 0"
  by (simp add: classify_d_def two_primary_def set_breaks_def reverse_pair_def
      new_AlignmentItem_def Let_def)

section \<open>Properties of the soft-clip resolver\<close>

text \<open>
  Claim C9. For all flag values and non-empty cigars \<^verbatim>\<open>mask_soft_clips\<close> returns (it is
  a total function of its four arguments, with no state), every flag it returns is
  \<open>0\<close> or \<open>1\<close>, and it never returns both the left and the right flag of one alignment
  as \<open>1\<close>.
\<close>

theorem mask_soft_clips_one_side:
  assumes "a_ct \<noteq> []" and "b_ct \<noteq> []"
  shows "\<exists>lcA rcA lcB rcB. mask_soft_clips aflag bflag a_ct b_ct = Inr (lcA, rcA, lcB, rcB)
           \<and> lcA \<in> {0, 1} \<and> rcA \<in> {0, 1} \<and> lcB \<in> {0, 1} \<and> rcB \<in> {0, 1}
           \<and> \<not> (lcA = 1 \<and> rcA = 1) \<and> \<not> (lcB = 1 \<and> rcB = 1)"
proof -
  define la :: int where "la = (if fst (hd a_ct) = 4 \<or> fst (hd a_ct) = 5 then 1 else 0)"
  define ra :: int where "ra = (if fst (last a_ct) = 4 \<or> fst (last a_ct) = 5 then 1 else 0)"
  define lb :: int where "lb = (if fst (hd b_ct) = 4 \<or> fst (hd b_ct) = 5 then 1 else 0)"
  define rb :: int where "rb = (if fst (last b_ct) = 4 \<or> fst (last b_ct) = 5 then 1 else 0)"
  have bits: "la = 0 \<or> la = 1" "ra = 0 \<or> ra = 1" "lb = 0 \<or> lb = 1" "rb = 0 \<or> rb = 1"
    by (simp_all add: la_def ra_def lb_def rb_def)
  show ?thesis
    using assms bits
    unfolding mask_soft_clips_def Let_def la_def [symmetric] ra_def [symmetric]
      lb_def [symmetric] rb_def [symmetric]
    by (elim disjE) simp_all
qed

text \<open>
  A read clipped on both sides (\<open>30S40M50S\<close>, forward, first in pair) and its
  supplementary alignment (\<open>70H50M\<close>): only the right clip of the first survives.
\<close>

theorem mask_soft_clips_one_side_witness:
  "[(4, 30), (0, 40), (4, 50)] \<noteq> ([] :: (int \<times> int) list)
   \<and> [(5, 70), (0, 50)] \<noteq> ([] :: (int \<times> int) list)
   \<and> mask_soft_clips 65 2113 [(4, 30), (0, 40), (4, 50)] [(5, 70), (0, 50)] = Inr (0, 1, 1, 0)"
proof -
  have "mask_soft_clips 65 2113 [(4, 30), (0, 40), (4, 50)] [(5, 70), (0, 50)] = Inr (0, 1, 1, 0)"
    by (simp add: mask_soft_clips_def Let_def)
  with mask_soft_clips_one_side [of "[(4, 30), (0, 40), (4, 50)]" "[(5, 70), (0, 50)]" 65 2113]
  show ?thesis by simp
qed

section \<open>Properties of the consensus step\<close>

lemma rbind_Inr [simp]: "rbind (Inr x) f = f x"
  by (simp add: rbind_def)

lemma rbind_Inl [simp]: "rbind (Inl e) f = Inl e"
  by (simp add: rbind_def)

lemma map_of_dset: "map_of (dset d k x) k' = (if k' = k then Some x else map_of d k')"
  by (simp add: dset_def update_conv')

lemma py_int_nonneg: "0 \<le> x \<Longrightarrow> 0 \<le> py_int x"
  by (simp add: py_int_def)

lemma break_ops_events_nonempty:
  "positions \<noteq> [] \<Longrightarrow> break_ops_events positions precise limit \<noteq> []"
proof -
  assume "positions \<noteq> []"
  then obtain p ps where "positions = p # ps" by (cases positions) auto
  then have "length (break_ops_events positions precise limit) > 0"
    by (simp add: break_ops_events_def Let_def)
  then show ?thesis by auto
qed

text \<open>The index the scan returns is a position of the event list, so the read is in range.\<close>

lemma scan_max_bound:
  "scan_max ops idx c m i < max (i + 1) (idx + length ops)"
  by (induction ops idx c m i rule: scan_max.induct) (auto simp: Let_def)

lemma break_ops_index_in_range:
  assumes "positions \<noteq> []"
  shows "scan_max (break_ops_events positions precise limit) 0 0 0 0
           < length (break_ops_events positions precise limit)"
proof -
  have "length (break_ops_events positions precise limit) > 0"
    using break_ops_events_nonempty [OF assms] by simp
  with scan_max_bound [of "break_ops_events positions precise limit" 0 0 0 0]
  show ?thesis by simp
qed

lemma break_ops_total:
  assumes "positions \<noteq> []"
  shows "\<exists>bp ci ip. break_ops positions precise limit median_pos = Inr (bp, ci, ip) \<and>
     ci = (if ip \<noteq> 0 \<and> length precise > 1 then 0
           else py_int \<bar>of_int (py_int (np_percentile_975 positions)) - median_pos\<bar>)"
  using assms break_ops_events_nonempty [OF assms, of precise limit]
  by (simp add: break_ops_def Let_def)

lemma break_ops_returns:
  assumes "positions \<noteq> []"
  shows "\<exists>bp ci ip. break_ops positions precise limit median_pos = Inr (bp, ci, ip) \<and> 0 \<le> ci"
proof -
  from break_ops_total [OF assms, of precise limit median_pos]
  obtain bp ci ip where "break_ops positions precise limit median_pos = Inr (bp, ci, ip)"
    and "ci = (if ip \<noteq> 0 \<and> length precise > 1 then 0
           else py_int \<bar>of_int (py_int (np_percentile_975 positions)) - median_pos\<bar>)"
    by blast
  moreover from this(2) have "0 \<le> ci" by (simp add: py_int_nonneg)
  ultimately show ?thesis by blast
qed




text \<open>
  Claim C2 (the code departs from it). For a \<open>DEL\<close> whose side-A median is not below
  its side-B median, \<^verbatim>\<open>make_call\<close> unpacks the precision flag of the side-B sweep
  into \<open>preciseA\<close> and that of the side-A sweep into \<open>preciseB\<close>. With one hypothesis
  whose A break (\<open>500\<close>) is precise and whose B break (\<open>200\<close>) is not, the sweep over
  the A positions is precise and the one over the B positions is not, and the call
  reports \<open>preciseA = 0\<close>, \<open>preciseB = 1\<close>.
\<close>

theorem make_call_DEL_precise_flags_swapped:
  "make_call [classify_d del_pair_b_first] [500] [] ''DEL'' ''3to5'' 300 50 =
     Inr [(''svtype'', VStr ''DEL''), (''join_type'', VStr ''3to5''),
          (''chrA'', VInt 1), (''chrB'', VInt 1), (''cipos95A'', VInt 0),
          (''cipos95B'', VInt 0), (''posA'', VInt 500), (''posB'', VInt 200),
          (''preciseA'', VInt 0), (''preciseB'', VInt 1), (''svlen'', VInt 300)]
   \<and> break_ops [500] [500] (- 350) (np_median [500]) = Inr (500, 0, 1)
   \<and> break_ops [200] [] 350 (np_median [200]) = Inr (200, 0, 0)"
  by code_simp

lemma make_call_sweeps_total:
  assumes "positionsA \<noteq> []" and "positionsB \<noteq> []"
  shows "\<exists>a ca pa b cb pb.
     make_call_sweeps positionsA positionsB precise_a precise_b svt jt limit mA mB
       = Inr (a, ca, pa, b, cb, pb) \<and> 0 \<le> ca \<and> 0 \<le> cb"
proof -
  obtain a1 c1 p1 where A1: "break_ops positionsA precise_a limit mA = Inr (a1, c1, p1)" "0 \<le> c1"
    using break_ops_returns [OF assms(1)] by blast
  obtain a2 c2 p2 where A2: "break_ops positionsA precise_a (- limit) mA = Inr (a2, c2, p2)" "0 \<le> c2"
    using break_ops_returns [OF assms(1)] by blast
  obtain b1 d1 q1 where B1: "break_ops positionsB precise_b limit mB = Inr (b1, d1, q1)" "0 \<le> d1"
    using break_ops_returns [OF assms(2)] by blast
  obtain b2 d2 q2 where B2: "break_ops positionsB precise_b (- limit) mB = Inr (b2, d2, q2)" "0 \<le> d2"
    using break_ops_returns [OF assms(2)] by blast
  show ?thesis
    unfolding make_call_sweeps_def by (simp add: A1 A2 B1 B2)
qed

lemma infer_unmapped_svlen:
  assumes "0 \<le> ca" and "0 \<le> cb"
  shows "\<exists>a' b' sv. infer_unmapped_insertion_break_point a ca pa b cb pb = (a', ca, pa, b', cb, pb, sv)
           \<and> 0 \<le> sv"
  using assms
  by (auto simp add: infer_unmapped_insertion_break_point_def Let_def py_int_nonneg)

lemma make_call_svlen:
  assumes "informative \<noteq> []"
  defines "i0 \<equiv> hd informative"
  defines "q_gaps \<equiv> filter (\<lambda>g. g \<noteq> - 1) (map query_gap informative)"
  shows "\<exists>d svlen pA pB.
           make_call informative precise_a precise_b svt jt insert_size insert_stdev = Inr d
         \<and> map_of d ''svlen'' = Some (VInt svlen)
         \<and> map_of d ''posA'' = Some (VInt pA) \<and> map_of d ''posB'' = Some (VInt pB)
         \<and> (chrA i0 \<noteq> chrB i0 \<longrightarrow> svlen = 0)
         \<and> (chrA i0 = chrB i0 \<and> svt \<noteq> ''INS'' \<longrightarrow> svlen = \<bar>pB - pA\<bar>)
         \<and> (chrA i0 = chrB i0 \<and> svt = ''INS'' \<and> q_gaps \<noteq> [] \<longrightarrow> svlen = py_int (np_mean q_gaps))
         \<and> (\<not> (chrA i0 = chrB i0 \<and> svt = ''INS'' \<and> q_gaps \<noteq> []) \<longrightarrow> 0 \<le> svlen)"
proof -
  obtain i1 rest where inf: "informative = i1 # rest"
    using assms(1) by (cases informative) auto
  have i0: "i0 = i1" by (simp add: i0_def inf)
  let ?pA = "map breakA informative" and ?pB = "map breakB informative"
  have ne: "?pA \<noteq> []" "?pB \<noteq> []" by (simp_all add: inf)
  obtain a ca pa b cb pb where
    sw: "make_call_sweeps ?pA ?pB precise_a precise_b svt jt (insert_size + insert_stdev)
           (np_median ?pA) (np_median ?pB) = Inr (a, ca, pa, b, cb, pb)"
    and nn: "0 \<le> ca" "0 \<le> cb"
    using make_call_sweeps_total [OF ne] by blast
  obtain a' b' sv where
    iu: "infer_unmapped_insertion_break_point a ca pa b cb pb = (a', ca, pa, b', cb, pb, sv)"
    and sv: "0 \<le> sv"
    using infer_unmapped_svlen [OF nn] by blast
  show ?thesis
    unfolding make_call_def i0 q_gaps_def
    using sw iu sv by (simp add: inf Let_def)
qed

section \<open>Properties of the regional annotation\<close>

lemma switch_sides_result:
  assumes "map_of r ''chrA'' = Some cA" and "map_of r ''posA'' = Some pA"
    and "map_of r ''cipos95A'' = Some ciA" and "map_of r ''contig'' = Some c1"
    and "map_of r ''chrB'' = Some cB" and "map_of r ''posB'' = Some pB"
    and "map_of r ''cipos95B'' = Some ciB" and "map_of r ''contig2'' = Some c2"
  shows "switch_sides r =
     Inr (dset (dset (dset (dset (dset (dset (dset (dset r ''chrA'' cB) ''posA'' pB) ''cipos95A'' ciB)
            ''chrB'' cA) ''posB'' pA) ''cipos95B'' ciA) ''contig2'' c1) ''contig'' c2)"
  using assms by (simp add: switch_sides_def dget_def map_of_dset Let_def)

lemma annotate_depth_cross:
  assumes "map_of r ''chrA'' = Some cA" and "map_of r ''chrB'' = Some cB" and "cA \<noteq> cB"
    and "map_of r ''posA'' = Some (VInt pA)" and "map_of r ''posB'' = Some (VInt pB)"
    and "map_of r ''pe'' = Some (VInt pe)" and "map_of r ''supp'' = Some (VInt supp)"
    and "map_of r ''spanning'' = Some (VInt sp)"
  shows "\<exists>r'. annotate_depth coverage kind r = Inr r' \<and> map_of r' ''svlen'' = Some (VInt 1000000)"
  using assms
  by (simp add: annotate_depth_def dget_def dget_int_def as_int_def map_of_dset Let_def)

lemma regional_kind_cross:
  assumes "map_of r ''chrA'' = Some cA" and "map_of r ''chrB'' = Some cB" and "cA \<noteq> cB"
    and "map_of r ''posA'' = Some (VInt pA)" and "map_of r ''posB'' = Some (VInt pB)"
  shows "\<exists>kind sw. regional_kind intersecterpy find_overlap r = Inr (kind, sw)"
  using assms
  by (auto simp add: regional_kind_def dget_def dget_int_def as_int_def Let_def)

lemma get_raw_coverage_information_cross:
  assumes "map_of r ''chrA'' = Some cA" and "map_of r ''chrB'' = Some cB" and "cA \<noteq> cB"
    and "map_of r ''posA'' = Some (VInt pA)" and "map_of r ''posB'' = Some (VInt pB)"
    and "map_of r ''cipos95A'' = Some ciA" and "map_of r ''cipos95B'' = Some ciB"
    and "map_of r ''contig'' = Some c1" and "map_of r ''contig2'' = Some c2"
    and "map_of r ''pe'' = Some (VInt pe)" and "map_of r ''supp'' = Some (VInt supp)"
    and "map_of r ''spanning'' = Some (VInt sp)"
  shows "\<exists>r'. get_raw_coverage_information intersecterpy find_overlap coverage r = Inr r'
           \<and> map_of r' ''svlen'' = Some (VInt 1000000)"
proof -
  obtain kind sw where rk: "regional_kind intersecterpy find_overlap r = Inr (kind, sw)"
    using regional_kind_cross [OF assms(1-5)] by blast
  show ?thesis
  proof (cases sw)
    case False
    with rk have "get_raw_coverage_information intersecterpy find_overlap coverage r
        = annotate_depth coverage kind r"
      by (simp add: get_raw_coverage_information_def)
    with annotate_depth_cross [OF assms(1-5) assms(10-12)] show ?thesis by simp
  next
    case True
    let ?r' = "dset (dset (dset (dset (dset (dset (dset (dset r ''chrA'' cB) ''posA'' (VInt pB))
            ''cipos95A'' ciB) ''chrB'' cA) ''posB'' (VInt pA)) ''cipos95B'' ciA) ''contig2'' c1)
            ''contig'' c2"
    have sw': "switch_sides r = Inr ?r'"
      by (rule switch_sides_result) (use assms in simp_all)
    have g: "get_raw_coverage_information intersecterpy find_overlap coverage r
        = annotate_depth coverage kind ?r'"
      using rk True by (simp add: get_raw_coverage_information_def sw')
    have "\<exists>r''. annotate_depth coverage kind ?r' = Inr r'' \<and> map_of r'' ''svlen'' = Some (VInt 1000000)"
      by (rule annotate_depth_cross [where cA = cB and cB = cA and pA = pB and pB = pA
            and pe = pe and supp = supp and sp = sp])
         (use assms in \<open>simp_all add: map_of_dset\<close>)
    with g show ?thesis by simp
  qed
qed

text \<open>
  Claim C10. When the regional-annotation step decides to swap the A and B labels, the
  swap exchanges \<open>chrA\<close>/\<open>posA\<close>/\<open>cipos95A\<close> with \<open>chrB\<close>/\<open>posB\<close>/\<open>cipos95B\<close> and
  \<open>contig\<close> with \<open>contig2\<close>, and leaves every other key of the call as it was; in
  particular \<open>preciseA\<close>, \<open>preciseB\<close> and \<open>svlen\<close> are not touched by it. The record
  \<open>r'\<close> after the swap is the one the depth annotation then works on.
\<close>

theorem switch_exchanges_sides_only:
  assumes "regional_kind intersecterpy find_overlap r = Inr (kind, True)"
    and "map_of r ''chrA'' = Some cA" and "map_of r ''posA'' = Some pA"
    and "map_of r ''cipos95A'' = Some ciA" and "map_of r ''contig'' = Some c1"
    and "map_of r ''chrB'' = Some cB" and "map_of r ''posB'' = Some pB"
    and "map_of r ''cipos95B'' = Some ciB" and "map_of r ''contig2'' = Some c2"
  shows "\<exists>r'. switch_sides r = Inr r'
     \<and> get_raw_coverage_information intersecterpy find_overlap coverage r
         = annotate_depth coverage kind r'
     \<and> map_of r' ''chrA'' = Some cB \<and> map_of r' ''posA'' = Some pB
     \<and> map_of r' ''cipos95A'' = Some ciB
     \<and> map_of r' ''chrB'' = Some cA \<and> map_of r' ''posB'' = Some pA
     \<and> map_of r' ''cipos95B'' = Some ciA
     \<and> map_of r' ''contig'' = Some c2 \<and> map_of r' ''contig2'' = Some c1
     \<and> map_of r' ''preciseA'' = map_of r ''preciseA''
     \<and> map_of r' ''preciseB'' = map_of r ''preciseB''
     \<and> map_of r' ''svlen'' = map_of r ''svlen''
     \<and> (\<forall>k. k \<notin> {''chrA'', ''posA'', ''cipos95A'', ''chrB'', ''posB'', ''cipos95B'',
                    ''contig'', ''contig2''} \<longrightarrow> map_of r' k = map_of r k)"
proof -
  let ?r' = "dset (dset (dset (dset (dset (dset (dset (dset r ''chrA'' cB) ''posA'' pB) ''cipos95A'' ciB)
            ''chrB'' cA) ''posB'' pA) ''cipos95B'' ciA) ''contig2'' c1) ''contig'' c2"
  have sw: "switch_sides r = Inr ?r'"
    using assms(2-9) by (rule switch_sides_result)
  have g: "get_raw_coverage_information intersecterpy find_overlap coverage r
         = annotate_depth coverage kind ?r'"
    by (simp add: get_raw_coverage_information_def assms(1) sw)
  have look: "map_of ?r' k =
      (if k = ''contig'' then Some c2 else if k = ''contig2'' then Some c1
       else if k = ''cipos95B'' then Some ciA else if k = ''posB'' then Some pA
       else if k = ''chrB'' then Some cA else if k = ''cipos95A'' then Some ciB
       else if k = ''posA'' then Some pB else if k = ''chrA'' then Some cB
       else map_of r k)" for k
    by (simp only: map_of_dset)
  show ?thesis
    apply (rule exI [of _ ?r'])
    apply (simp only: sw g)
    apply (simp add: look)
    done
qed

theorem switch_exchanges_sides_only_witness:
  "regional_kind targets_chr2 no_overlaps tra_call = Inr (''hemi-regional'', True)
   \<and> switch_sides tra_call =
       Inr [(''svtype'', VStr ''TRA''), (''join_type'', VStr ''3to5''),
            (''chrA'', VStr ''chr1''), (''chrB'', VStr ''chr2''),
            (''cipos95A'', VInt 0), (''cipos95B'', VInt 12),
            (''posA'', VInt 900), (''posB'', VInt 5000),
            (''preciseA'', VInt 0), (''preciseB'', VInt 1), (''svlen'', VInt 0),
            (''pe'', VInt 3), (''supp'', VInt 2), (''sc'', VInt 1), (''spanning'', VInt 0),
            (''linked'', VInt 0), (''block_edge'', VInt 1),
            (''contig'', VStr ''ACGT''), (''contig2'', VNone), (''ref_bases'', VInt 4)]
   \<and> map_of tra_call ''preciseA'' = Some (VInt 0)
   \<and> map_of tra_call ''preciseB'' = Some (VInt 1)"
proof -
  have rk: "regional_kind targets_chr2 no_overlaps tra_call = Inr (''hemi-regional'', True)"
    by code_simp
  have k: "map_of tra_call ''chrA'' = Some (VStr ''chr2'')"
    "map_of tra_call ''posA'' = Some (VInt 5000)"
    "map_of tra_call ''cipos95A'' = Some (VInt 12)"
    "map_of tra_call ''contig'' = Some VNone"
    "map_of tra_call ''chrB'' = Some (VStr ''chr1'')"
    "map_of tra_call ''posB'' = Some (VInt 900)"
    "map_of tra_call ''cipos95B'' = Some (VInt 0)"
    "map_of tra_call ''contig2'' = Some (VStr ''ACGT'')"
    by code_simp+
  have sw: "switch_sides tra_call =
       Inr [(''svtype'', VStr ''TRA''), (''join_type'', VStr ''3to5''),
            (''chrA'', VStr ''chr1''), (''chrB'', VStr ''chr2''),
            (''cipos95A'', VInt 0), (''cipos95B'', VInt 12),
            (''posA'', VInt 900), (''posB'', VInt 5000),
            (''preciseA'', VInt 0), (''preciseB'', VInt 1), (''svlen'', VInt 0),
            (''pe'', VInt 3), (''supp'', VInt 2), (''sc'', VInt 1), (''spanning'', VInt 0),
            (''linked'', VInt 0), (''block_edge'', VInt 1),
            (''contig'', VStr ''ACGT''), (''contig2'', VNone), (''ref_bases'', VInt 4)]"
    by code_simp
  have p: "map_of tra_call ''preciseA'' = Some (VInt 0)" "map_of tra_call ''preciseB'' = Some (VInt 1)"
    by code_simp+
  from switch_exchanges_sides_only [OF rk k, of no_depth] rk sw p show ?thesis by simp
qed

text \<open>
  Claim C7, as stated, fails: \<open>svlen\<close> is not always \<open>\<ge> 0\<close>. The split read
  \<open>split_read_overlap\<close> is classified as \<open>INS\<close> with the recorded query gap \<open>- 5\<close>
  (its two alignments overlap by 5 bases on the read and by 10 on the reference), and
  the call made from it has \<open>svlen = - 5\<close>.
\<close>

theorem make_call_negative_svlen:
  "make_call [classify_d split_read_overlap] [200] [190] ''INS'' ''5to3'' 300 50 =
     Inr [(''svtype'', VStr ''INS''), (''join_type'', VStr ''5to3''),
          (''chrA'', VInt 1), (''chrB'', VInt 1), (''cipos95A'', VInt 0),
          (''cipos95B'', VInt 0), (''posA'', VInt 200), (''posB'', VInt 190),
          (''preciseA'', VInt 1), (''preciseB'', VInt 1), (''svlen'', VInt (- 5))]"
  by code_simp

text \<open>
  Claim C7, amended. For every call \<^verbatim>\<open>make_call\<close> produces from a non-empty list of
  hypotheses: for a cross-chromosome call \<open>svlen\<close> is \<open>0\<close>; for a same-chromosome call
  that is not an insertion \<open>svlen\<close> is \<open>|posB - posA|\<close> of the final breakpoints; for a
  same-chromosome \<open>INS\<close> with recorded query gaps \<open>svlen\<close> is the truncated mean of
  those gaps (which can be negative); in every other case \<open>svlen \<ge> 0\<close>. For a record
  with two different chromosomes the regional-annotation step returns and sets
  \<open>svlen\<close> to \<open>1000000\<close>.
\<close>

theorem svlen_of_calls:
  assumes "informative \<noteq> []"
    and "map_of r ''chrA'' = Some cA" and "map_of r ''chrB'' = Some cB" and "cA \<noteq> cB"
    and "map_of r ''posA'' = Some (VInt pA)" and "map_of r ''posB'' = Some (VInt pB)"
    and "map_of r ''cipos95A'' = Some ciA" and "map_of r ''cipos95B'' = Some ciB"
    and "map_of r ''contig'' = Some c1" and "map_of r ''contig2'' = Some c2"
    and "map_of r ''pe'' = Some (VInt pe)" and "map_of r ''supp'' = Some (VInt supp)"
    and "map_of r ''spanning'' = Some (VInt sp)"
  shows "(\<exists>d svlen bA bB.
           make_call informative precise_a precise_b svt jt insert_size insert_stdev = Inr d
         \<and> map_of d ''svlen'' = Some (VInt svlen)
         \<and> map_of d ''posA'' = Some (VInt bA) \<and> map_of d ''posB'' = Some (VInt bB)
         \<and> (chrA (hd informative) \<noteq> chrB (hd informative) \<longrightarrow> svlen = 0)
         \<and> (chrA (hd informative) = chrB (hd informative) \<and> svt \<noteq> ''INS''
              \<longrightarrow> svlen = \<bar>bB - bA\<bar>)
         \<and> (chrA (hd informative) = chrB (hd informative) \<and> svt = ''INS''
              \<and> filter (\<lambda>g. g \<noteq> - 1) (map query_gap informative) \<noteq> []
              \<longrightarrow> svlen = py_int (np_mean (filter (\<lambda>g. g \<noteq> - 1) (map query_gap informative))))
         \<and> (\<not> (chrA (hd informative) = chrB (hd informative) \<and> svt = ''INS''
                 \<and> filter (\<lambda>g. g \<noteq> - 1) (map query_gap informative) \<noteq> [])
              \<longrightarrow> 0 \<le> svlen))
       \<and> (\<exists>r'. get_raw_coverage_information intersecterpy find_overlap coverage r = Inr r'
                \<and> map_of r' ''svlen'' = Some (VInt 1000000))"
proof
  show "\<exists>d svlen bA bB.
           make_call informative precise_a precise_b svt jt insert_size insert_stdev = Inr d
         \<and> map_of d ''svlen'' = Some (VInt svlen)
         \<and> map_of d ''posA'' = Some (VInt bA) \<and> map_of d ''posB'' = Some (VInt bB)
         \<and> (chrA (hd informative) \<noteq> chrB (hd informative) \<longrightarrow> svlen = 0)
         \<and> (chrA (hd informative) = chrB (hd informative) \<and> svt \<noteq> ''INS''
              \<longrightarrow> svlen = \<bar>bB - bA\<bar>)
         \<and> (chrA (hd informative) = chrB (hd informative) \<and> svt = ''INS''
              \<and> filter (\<lambda>g. g \<noteq> - 1) (map query_gap informative) \<noteq> []
              \<longrightarrow> svlen = py_int (np_mean (filter (\<lambda>g. g \<noteq> - 1) (map query_gap informative))))
         \<and> (\<not> (chrA (hd informative) = chrB (hd informative) \<and> svt = ''INS''
                 \<and> filter (\<lambda>g. g \<noteq> - 1) (map query_gap informative) \<noteq> [])
              \<longrightarrow> 0 \<le> svlen)"
    using assms(1) by (rule make_call_svlen)
  show "\<exists>r'. get_raw_coverage_information intersecterpy find_overlap coverage r = Inr r'
                \<and> map_of r' ''svlen'' = Some (VInt 1000000)"
    using assms(2-13) by (rule get_raw_coverage_information_cross)
qed

theorem svlen_of_calls_witness:
  "[classify_d del_pair_b_first] \<noteq> []
   \<and> map_of tra_call ''chrA'' = Some (VStr ''chr2'')
   \<and> map_of tra_call ''chrB'' = Some (VStr ''chr1'')
   \<and> make_call [classify_d del_pair_b_first] [500] [] ''DEL'' ''3to5'' 300 50 =
       Inr [(''svtype'', VStr ''DEL''), (''join_type'', VStr ''3to5''),
            (''chrA'', VInt 1), (''chrB'', VInt 1), (''cipos95A'', VInt 0),
            (''cipos95B'', VInt 0), (''posA'', VInt 500), (''posB'', VInt 200),
            (''preciseA'', VInt 0), (''preciseB'', VInt 1), (''svlen'', VInt 300)]
   \<and> get_raw_coverage_information targets_chr2 no_overlaps no_depth tra_call =
       Inr [(''svtype'', VStr ''TRA''), (''join_type'', VStr ''3to5''),
            (''chrA'', VStr ''chr1''), (''chrB'', VStr ''chr2''),
            (''cipos95A'', VInt 0), (''cipos95B'', VInt 12), (''posA'', VInt 900),
            (''posB'', VInt 5000), (''preciseA'', VInt 0), (''preciseB'', VInt 1),
            (''svlen'', VInt 1000000), (''pe'', VInt 3), (''supp'', VInt 2),
            (''sc'', VInt 1), (''spanning'', VInt 0), (''linked'', VInt 0),
            (''block_edge'', VInt 1), (''contig'', VStr ''ACGT''),
            (''contig2'', VNone), (''ref_bases'', VInt 4),
            (''kind'', VStr ''hemi-regional''), (''raw_reads_10kb'', VInt 0),
            (''su'', VInt 5)]"
proof -
  have ne: "[classify_d del_pair_b_first] \<noteq> []" by simp
  have k: "map_of tra_call ''chrA'' = Some (VStr ''chr2'')"
    "map_of tra_call ''chrB'' = Some (VStr ''chr1'')"
    "VStr ''chr2'' \<noteq> VStr ''chr1''"
    "map_of tra_call ''posA'' = Some (VInt 5000)"
    "map_of tra_call ''posB'' = Some (VInt 900)"
    "map_of tra_call ''cipos95A'' = Some (VInt 12)"
    "map_of tra_call ''cipos95B'' = Some (VInt 0)"
    "map_of tra_call ''contig'' = Some VNone"
    "map_of tra_call ''contig2'' = Some (VStr ''ACGT'')"
    "map_of tra_call ''pe'' = Some (VInt 3)"
    "map_of tra_call ''supp'' = Some (VInt 2)"
    "map_of tra_call ''spanning'' = Some (VInt 0)"
    by code_simp+
  have mc: "make_call [classify_d del_pair_b_first] [500] [] ''DEL'' ''3to5'' 300 50 =
       Inr [(''svtype'', VStr ''DEL''), (''join_type'', VStr ''3to5''),
            (''chrA'', VInt 1), (''chrB'', VInt 1), (''cipos95A'', VInt 0),
            (''cipos95B'', VInt 0), (''posA'', VInt 500), (''posB'', VInt 200),
            (''preciseA'', VInt 0), (''preciseB'', VInt 1), (''svlen'', VInt 300)]"
    by code_simp
  have gr: "get_raw_coverage_information targets_chr2 no_overlaps no_depth tra_call =
       Inr [(''svtype'', VStr ''TRA''), (''join_type'', VStr ''3to5''),
            (''chrA'', VStr ''chr1''), (''chrB'', VStr ''chr2''),
            (''cipos95A'', VInt 0), (''cipos95B'', VInt 12), (''posA'', VInt 900),
            (''posB'', VInt 5000), (''preciseA'', VInt 0), (''preciseB'', VInt 1),
            (''svlen'', VInt 1000000), (''pe'', VInt 3), (''supp'', VInt 2),
            (''sc'', VInt 1), (''spanning'', VInt 0), (''linked'', VInt 0),
            (''block_edge'', VInt 1), (''contig'', VStr ''ACGT''),
            (''contig2'', VNone), (''ref_bases'', VInt 4),
            (''kind'', VStr ''hemi-regional''), (''raw_reads_10kb'', VInt 0),
            (''su'', VInt 5)]"
    by code_simp
  from svlen_of_calls [OF ne k, of "[500]" "[]" "''DEL''" "''3to5''" 300 50
      targets_chr2 no_overlaps no_depth] ne k(1,2) mc gr
  show ?thesis by simp
qed

section \<open>Properties of the evidence aggregator\<close>




lemma dappend_other:
  "dappend r k x = Inr r' \<Longrightarrow> k' \<noteq> k \<Longrightarrow> map_of r' k' = map_of r k'"
  by (auto simp: dappend_def dget_def rbind_def map_of_dset split: option.splits pyval.splits)

lemma dadd_other:
  "dadd r k n = Inr r' \<Longrightarrow> k' \<noteq> k \<Longrightarrow> map_of r' k' = map_of r k'"
  by (auto simp: dadd_def dget_int_def dget_def as_int_def rbind_def map_of_dset
      split: option.splits pyval.splits)

lemma append_tag_other:
  "append_tag r k t = Inr r' \<Longrightarrow> k' \<noteq> k \<Longrightarrow> map_of r' k' = map_of r k'"
  by (cases t) (auto simp: append_tag_def dest: dappend_other)

lemma append_n_sa_other:
  "append_n_sa r a = Inr r' \<Longrightarrow> k' \<noteq> ''n_sa'' \<Longrightarrow> map_of r' k' = map_of r k'"
  by (cases "tag_SA a") (auto simp: append_n_sa_def dest: dappend_other)

lemma extended_seen_once_n_gaps:
  assumes "extended_seen_once a r seen = Inr (r', seen')"
  shows "map_of r' ''n_gaps'' = map_of r ''n_gaps''"
proof (cases "qname a \<in> set seen")
  case True
  with assms show ?thesis by (simp add: extended_seen_once_def)
next
  case False
  with assms obtain r1 where 1: "append_tag r ''DP'' (tag_DP a) = Inr r1"
    and 2: "append_tag r1 ''DN'' (tag_DN a) = Inr r'"
    by (auto simp: extended_seen_once_def rbind_def split: sum.splits)
  from append_tag_other [OF 1, of "''n_gaps''"] append_tag_other [OF 2, of "''n_gaps''"]
  show ?thesis by simp
qed

lemma append_n_gaps_missing:
  "map_of r ''n_gaps'' = None \<Longrightarrow> append_n_gaps r s b = Inl (KeyError ''n_gaps'')"
  by (simp add: append_n_gaps_def dget_def)

text \<open>
  Both loop bodies of \<^verbatim>\<open>extended_attrs\<close> start with the same four statements, the
  fourth of which appends to \<^verbatim>\<open>r["n_gaps"]\<close>. None of the first three adds that key,
  so on a dictionary without it the body raises, whatever follows (\<open>k\<close>).
\<close>

lemma extended_prefix_raises:
  assumes "map_of r ''n_gaps'' = None"
  shows "isl (rbind (extended_seen_once a r seen) (\<lambda>(r, seen).
      rbind (if flag a AND 2 \<noteq> 0 then dadd r ''NP'' 1 else Inr r) (\<lambda>r.
      rbind (append_n_sa r a) (\<lambda>r.
      case n_aligned_bases (cigartuples a) of (a_bases, large_gaps, n_small_gaps) \<Rightarrow>
      rbind (append_n_gaps r n_small_gaps a_bases) (k r seen a_bases large_gaps)))))"
proof (cases "extended_seen_once a r seen")
  case (Inl e)
  then show ?thesis by simp
next
  case (Inr p)
  obtain r1 seen1 where p: "p = (r1, seen1)" by (cases p)
  have n1: "map_of r1 ''n_gaps'' = None"
    using extended_seen_once_n_gaps [of a r seen r1 seen1] Inr p assms by simp
  show ?thesis
  proof (cases "if flag a AND 2 \<noteq> 0 then dadd r1 ''NP'' 1 else Inr r1")
    case (Inl e)
    with Inr p show ?thesis by simp
  next
    case r2: (Inr r2)
    have n2: "map_of r2 ''n_gaps'' = None"
      using r2 n1 dadd_other [of r1 "''NP''" 1 r2 "''n_gaps''"] by (auto split: if_splits)
    show ?thesis
    proof (cases "append_n_sa r2 a")
      case (Inl e)
      with Inr p r2 show ?thesis by simp
    next
      case r3: (Inr r3)
      have n3: "map_of r3 ''n_gaps'' = None"
        using append_n_sa_other [OF r3, of "''n_gaps''"] n2 by simp
      show ?thesis
        using Inr p r2 r3 by (simp add: append_n_gaps_missing [OF n3] split: prod.split)
    qed
  qed
qed

lemma extended_attrs_read_raises:
  assumes "map_of r ''n_gaps'' = None"
  shows "isl (extended_attrs_read is_insertion a (r, paired_end, seen))"
  unfolding extended_attrs_read_def prod.case
  by (rule extended_prefix_raises [OF assms])

lemma extended_attrs_spanning_raises:
  assumes "map_of r ''n_gaps'' = None"
  shows "isl (extended_attrs_spanning a (r, paired_end, seen))"
  unfolding extended_attrs_spanning_def prod.case
  by (rule extended_prefix_raises [OF assms])

lemma extended_attrs_init_n_gaps: "map_of (extended_attrs_init spanning) ''n_gaps'' = None"
  by (simp add: extended_attrs_init_def)

lemma isl_rbind: "isl m \<Longrightarrow> isl (rbind m f)"
  by (cases m) simp_all

text \<open>
  With at least one alignment record, in any of the three lists, the extended-mode
  aggregator raises: the dictionary it starts from has no \<^verbatim>\<open>"n_gaps"\<close> key.
\<close>

lemma extended_attrs_raises:
  assumes "reads1 @ reads2 @ spanning \<noteq> []"
  shows "isl (extended_attrs reads1 reads2 spanning min_support svt)"
proof (cases "reads1 @ reads2")
  case (Cons a as)
  have "isl (for_each (extended_attrs_read (svt = VStr ''INS'')) (reads1 @ reads2)
          (extended_attrs_init spanning, [], []))"
    unfolding Cons for_each.simps
    by (rule isl_rbind) (rule extended_attrs_read_raises [OF extended_attrs_init_n_gaps])
  then show ?thesis
    unfolding extended_attrs_def Let_def by (rule isl_rbind)
next
  case Nil
  with assms obtain a as where sp: "spanning = a # as" by (cases spanning) auto
  have "isl (for_each extended_attrs_spanning spanning (extended_attrs_init spanning, [], []))"
    unfolding for_each.simps sp [symmetric]
    apply (subst sp)
    unfolding for_each.simps
    by (rule isl_rbind) (rule extended_attrs_spanning_raises [OF extended_attrs_init_n_gaps])
  then show ?thesis
    unfolding extended_attrs_def Let_def Nil for_each.simps rbind_Inr
    by (rule isl_rbind)
qed

text \<open>
  With no alignment record at all it returns the empty dictionary when \<open>min_support\<close>
  is positive, and raises in its reduction loop otherwise: it never returns a non-empty
  dictionary.
\<close>

lemma extended_attrs_no_reads:
  "extended_attrs [] [] [] min_support svt =
     (if 0 < min_support then Inr [] else Inl (KeyError ''n_gaps''))"
proof -
  have r: "for_each (reduce_mean 100) [''NMpri'', ''NMsupp'', ''NMbase'', ''n_gaps'']
             (extended_attrs_init []) = Inl (KeyError ''n_gaps'')"
    by code_simp
  have p: "dget_int (extended_attrs_init []) ''pe'' = Inr 0"
    "dget_int (extended_attrs_init []) ''supp'' = Inr 0"
    by code_simp+
  show ?thesis
    unfolding extended_attrs_def Let_def
    by (simp only: append_Nil for_each.simps(1) rbind_Inr rbind_Inl prod.case p r) simp
qed

text \<open>
  Claim C3 (the code departs from it). With \<open>extended_tags\<close> set and one alignment
  record whose cigar is \<open>60M40S\<close>, \<^verbatim>\<open>count_attributes\<close> does not return a dictionary:
  \<^verbatim>\<open>extended_attrs\<close> raises \<^verbatim>\<open>KeyError('n_gaps')\<close> at its first
  \<^verbatim>\<open>r["n_gaps"].append(...)\<close>.
\<close>

theorem extended_attrs_KeyError_n_gaps:
  "cigartuples pri_read \<noteq> []
   \<and> count_attributes [pri_read] [] [] 1 1 (VStr ''DEL'') = Inl (KeyError ''n_gaps'')"
  by code_simp

section \<open>Properties of the support threshold\<close>









end
